theory Spec2Isabelle
  imports Complex_Main
begin

section \<open>Python values\<close>

text \<open>
  Python strings are modelled as HOL strings whose characters are the code points
  U+0000 .. U+00FF. Values decoded from JSON cells are the datatype \<open>json\<close>; a Python
  dict is an association list in insertion order whose keys are distinct, read with
  \<open>map_of\<close>. The type parameter \<open>'f\<close> is Python's \<open>float\<close>: binary floating point is
  not modelled, every operation the program applies to a float is a field of
  \<open>float_ops\<close>, and the functions below take that record as their first argument.
\<close>

datatype 'f json =
    JNull
  | JBool bool
  | JInt int
  | JFloat 'f
  | JStr string
  | JList "'f json list"
  | JObj "(string \<times> 'f json) list"

datatype py_error =
    JSONDecodeError string string nat
  | TypeError
  | AttributeError
  | ValueError
  | OverflowError
  | RecursionError

record 'f float_ops =
  f_of_int :: "int \<Rightarrow> 'f option"
  f_of_str :: "string \<Rightarrow> 'f option"
  f_sub :: "'f \<Rightarrow> 'f \<Rightarrow> 'f"
  f_abs :: "'f \<Rightarrow> 'f"
  f_sum :: "'f list \<Rightarrow> 'f"
  f_truediv :: "'f \<Rightarrow> nat \<Rightarrow> 'f"
  f_is_zero :: "'f \<Rightarrow> bool"
  f_str :: "'f \<Rightarrow> string"
  f_json :: "'f \<Rightarrow> string"

text \<open>
  \<open>f_of_int\<close> is \<open>float(i)\<close> (\<open>None\<close>: OverflowError), \<open>f_of_str\<close> is \<open>float(s)\<close>
  (\<open>None\<close>: ValueError), \<open>f_sum\<close> is the builtin \<open>sum\<close> on a list of floats,
  \<open>f_truediv x n\<close> is \<open>x / n\<close> for a positive length \<open>n\<close>, \<open>f_str\<close> is \<open>str\<close> and
  \<open>f_json\<close> the text \<open>json.dumps\<close> writes for a float.
\<close>

subsection \<open>Truthiness, \<open>or\<close>, \<open>float()\<close>\<close>

fun truthy :: "'f float_ops \<Rightarrow> 'f json \<Rightarrow> bool" where
  "truthy fl JNull = False"
| "truthy fl (JBool b) = b"
| "truthy fl (JInt i) = (i \<noteq> 0)"
| "truthy fl (JFloat x) = (\<not> f_is_zero fl x)"
| "truthy fl (JStr s) = (s \<noteq> [])"
| "truthy fl (JList xs) = (xs \<noteq> [])"
| "truthy fl (JObj kvs) = (kvs \<noteq> [])"

definition py_or :: "'f float_ops \<Rightarrow> 'f json \<Rightarrow> 'f json \<Rightarrow> 'f json" where
  "py_or fl a b = (if truthy fl a then a else b)"

fun is_none :: "'f json \<Rightarrow> bool" where
  "is_none JNull = True"
| "is_none _ = False"

fun py_float :: "'f float_ops \<Rightarrow> 'f json \<Rightarrow> py_error + 'f" where
  "py_float fl JNull = Inl TypeError"
| "py_float fl (JBool b) =
     (case f_of_int fl (if b then 1 else 0) of None \<Rightarrow> Inl OverflowError | Some x \<Rightarrow> Inr x)"
| "py_float fl (JInt i) =
     (case f_of_int fl i of None \<Rightarrow> Inl OverflowError | Some x \<Rightarrow> Inr x)"
| "py_float fl (JFloat x) = Inr x"
| "py_float fl (JStr s) =
     (case f_of_str fl s of None \<Rightarrow> Inl ValueError | Some x \<Rightarrow> Inr x)"
| "py_float fl (JList xs) = Inl TypeError"
| "py_float fl (JObj kvs) = Inl TypeError"

subsection \<open>Strings: \<open>strip\<close>, \<open>str()\<close>, \<open>repr()\<close>\<close>

definition py_isspace :: "char \<Rightarrow> bool" where
  "py_isspace c = (of_char c \<in> {9, 10, 11, 12, 13, 28, 29, 30, 31, 32, 133, 160 :: nat})"

definition py_lstrip :: "string \<Rightarrow> string" where
  "py_lstrip s = dropWhile py_isspace s"

definition py_rstrip :: "string \<Rightarrow> string" where
  "py_rstrip s = rev (dropWhile py_isspace (rev s))"

definition py_strip :: "string \<Rightarrow> string" where
  "py_strip s = py_rstrip (py_lstrip s)"

definition digit_char :: "nat \<Rightarrow> char" where
  "digit_char d = char_of (48 + d)"

definition is_digit :: "char \<Rightarrow> bool" where
  "is_digit c = (48 \<le> (of_char c :: nat) \<and> (of_char c :: nat) \<le> 57)"

fun digits :: "nat \<Rightarrow> string" where
  "digits n = (if n < 10 then [digit_char n] else digits (n div 10) @ [digit_char (n mod 10)])"

declare digits.simps [simp del]

definition str_int :: "int \<Rightarrow> string" where
  "str_int i = (if i < 0 then CHR ''-'' # digits (nat (- i)) else digits (nat i))"

definition hex_char :: "nat \<Rightarrow> char" where
  "hex_char d = (if d < 10 then char_of (48 + d) else char_of (87 + d))"

definition py_printable :: "char \<Rightarrow> bool" where
  "py_printable c =
     (let n = (of_char c :: nat) in 32 \<le> n \<and> n \<noteq> 127 \<and> \<not> (128 \<le> n \<and> n \<le> 160) \<and> n \<noteq> 173)"

definition repr_char :: "char \<Rightarrow> char \<Rightarrow> string" where
  "repr_char q c =
     (if c = q \<or> c = CHR 0x5C then [CHR 0x5C, c]
      else if c = CHR 0x09 then [CHR 0x5C, CHR ''t'']
      else if c = CHR 0x0A then [CHR 0x5C, CHR ''n'']
      else if c = CHR 0x0D then [CHR 0x5C, CHR ''r'']
      else if py_printable c then [c]
      else [CHR 0x5C, CHR ''x'', hex_char (of_char c div 16), hex_char (of_char c mod 16)])"

definition repr_str :: "string \<Rightarrow> string" where
  "repr_str s =
     (let q = (if CHR 0x27 \<in> set s \<and> CHR 0x22 \<notin> set s then CHR 0x22 else CHR 0x27)
      in q # concat (map (repr_char q) s) @ [q])"

fun join :: "string \<Rightarrow> string list \<Rightarrow> string" where
  "join sep [] = []"
| "join sep [x] = x"
| "join sep (x # y # ys) = x @ sep @ join sep (y # ys)"

fun py_repr :: "'f float_ops \<Rightarrow> 'f json \<Rightarrow> string" where
  "py_repr fl JNull = ''None''"
| "py_repr fl (JBool b) = (if b then ''True'' else ''False'')"
| "py_repr fl (JInt i) = str_int i"
| "py_repr fl (JFloat x) = f_str fl x"
| "py_repr fl (JStr s) = repr_str s"
| "py_repr fl (JList xs) = ''['' @ join '', '' (map (py_repr fl) xs) @ '']''"
| "py_repr fl (JObj kvs) =
     ''{'' @ join '', '' (map (\<lambda>kv. repr_str (fst kv) @ '': '' @ py_repr fl (snd kv)) kvs) @ ''}''"

fun py_str :: "'f float_ops \<Rightarrow> 'f json \<Rightarrow> string" where
  "py_str fl (JStr s) = s"
| "py_str fl v = py_repr fl v"

subsection \<open>Dicts, \<open>.get\<close>, iteration\<close>

fun dict_set :: "('k \<times> 'v) list \<Rightarrow> 'k \<Rightarrow> 'v \<Rightarrow> ('k \<times> 'v) list" where
  "dict_set [] k v = [(k, v)]"
| "dict_set ((k', v') # d) k v = (if k' = k then (k, v) # d else (k', v') # dict_set d k v)"

definition obj_get :: "(string \<times> 'f json) list \<Rightarrow> string \<Rightarrow> 'f json" where
  "obj_get kvs k = (case map_of kvs k of None \<Rightarrow> JNull | Some v \<Rightarrow> v)"

fun py_iter :: "'f json \<Rightarrow> py_error + 'f json list" where
  "py_iter (JList xs) = Inr xs"
| "py_iter (JObj kvs) = Inr (map (\<lambda>kv. JStr (fst kv)) kvs)"
| "py_iter (JStr s) = Inr (map (\<lambda>c. JStr [c]) s)"
| "py_iter _ = Inl TypeError"

section \<open>The context builder\<close>

record 'f Source =
  name :: "'f json"
  url :: string

record 'f QuestionMeta =
  qid :: string
  question :: string
  category :: "'f json"
  sources :: "'f Source list"

record 'f result =
  result_id :: string
  session_id :: string
  quiz_link_id :: string
  pki_score :: "string option"
  created_at :: string
  perceptions :: "'f json"

record 'f source_entry =
  entry_name :: "'f json"
  entry_url :: string

record 'f item =
  question_id :: string
  item_question :: string
  item_category :: "'f json"
  user_guess :: "'f json"
  actual_value :: "'f json"
  abs_error :: "'f option"
  item_sources :: "'f source_entry list"

record 'f summary =
  num_questions :: nat
  mean_abs_error :: "'f option"
  num_with_sources :: nat

record 'f analysis_context =
  ctx_result_id :: string
  ctx_session_id :: string
  ctx_quiz_link_id :: string
  ctx_created_at :: string
  ctx_summary :: "'f summary"
  ctx_items :: "'f item list"
  candidate_sources :: "'f source_entry list"

text \<open>
  \<open>name\<close> and \<open>category\<close> hold whatever JSON value the quiz loader stored (\<open>JNull\<close> is
  Python's \<open>None\<close>). The try block of \<open>build_context_for_result\<close>: both \<open>float()\<close> calls
  can raise, and the handler turns every exception into \<open>None\<close>.
\<close>

definition compute_err :: "'f float_ops \<Rightarrow> 'f json \<Rightarrow> 'f json \<Rightarrow> 'f option" where
  "compute_err fl user_val actual_val =
     (if \<not> is_none user_val \<and> \<not> is_none actual_val then
        (case py_float fl user_val of
           Inl e \<Rightarrow> None
         | Inr x \<Rightarrow>
             (case py_float fl actual_val of
                Inl e \<Rightarrow> None
              | Inr y \<Rightarrow> Some (f_abs fl (f_sub fl x y))))
      else None)"

definition source_dict :: "'f float_ops \<Rightarrow> 'f Source \<Rightarrow> 'f source_entry" where
  "source_dict fl s = \<lparr>entry_name = py_or fl (name s) (JStr (url s)), entry_url = url s\<rparr>"

definition entry_qid :: "'f float_ops \<Rightarrow> (string \<times> 'f json) list \<Rightarrow> string" where
  "entry_qid fl kvs = py_strip (py_str fl (py_or fl (obj_get kvs ''questionId'') (JStr [])))"

definition meta_sources :: "'f QuestionMeta option \<Rightarrow> 'f Source list" where
  "meta_sources meta = (case meta of None \<Rightarrow> [] | Some m \<Rightarrow> sources m)"

definition build_item ::
  "'f float_ops \<Rightarrow> (string \<times> 'f QuestionMeta) list \<Rightarrow> (string \<times> 'f json) list \<Rightarrow> 'f item" where
  "build_item fl quiz_meta kvs =
     (let q = entry_qid fl kvs;
          meta = map_of quiz_meta q;
          question_text = py_strip (py_str fl (py_or fl (obj_get kvs ''questionText'')
                             (case meta of None \<Rightarrow> JStr [] | Some m \<Rightarrow> JStr (question m))));
          user_val = obj_get kvs ''userGuessValue'';
          actual_val = obj_get kvs ''actualValue''
      in \<lparr>question_id = q,
          item_question = question_text,
          item_category = (case meta of None \<Rightarrow> JNull | Some m \<Rightarrow> category m),
          user_guess = user_val,
          actual_value = actual_val,
          abs_error = compute_err fl user_val actual_val,
          item_sources = map (source_dict fl) (meta_sources meta)\<rparr>)"

fun record_sources ::
  "(string \<times> 'f Source) list \<Rightarrow> 'f Source list \<Rightarrow> (string \<times> 'f Source) list" where
  "record_sources all_sources [] = all_sources"
| "record_sources all_sources (s # ss) = record_sources (dict_set all_sources (url s) s) ss"

text \<open>
  One pass of the loop body over an entry; \<open>entry.get\<close> on anything but a dict raises
  AttributeError, which leaves the function.
\<close>

fun process_entries ::
  "'f float_ops \<Rightarrow> (string \<times> 'f QuestionMeta) list \<Rightarrow> 'f json list \<Rightarrow>
   'f item list \<times> (string \<times> 'f Source) list \<Rightarrow>
   py_error + ('f item list \<times> (string \<times> 'f Source) list)" where
  "process_entries fl quiz_meta [] st = Inr st"
| "process_entries fl quiz_meta (JObj kvs # es) (items, all_sources) =
     process_entries fl quiz_meta es
       (items @ [build_item fl quiz_meta kvs],
        record_sources all_sources (meta_sources (map_of quiz_meta (entry_qid fl kvs))))"
| "process_entries fl quiz_meta (_ # es) st = Inl AttributeError"

definition make_summary :: "'f float_ops \<Rightarrow> 'f item list \<Rightarrow> 'f summary" where
  "make_summary fl items =
     (let errors = List.map_filter abs_error items
      in \<lparr>num_questions = length items,
          mean_abs_error = (if errors \<noteq> [] then Some (f_truediv fl (f_sum fl errors) (length errors))
                            else None),
          num_with_sources = length (filter (\<lambda>i. item_sources i \<noteq> []) items)\<rparr>)"

definition build_context_for_result ::
  "'f float_ops \<Rightarrow> 'f result \<Rightarrow> (string \<times> 'f QuestionMeta) list \<Rightarrow> py_error + 'f analysis_context" where
  "build_context_for_result fl result quiz_meta =
     (case py_iter (perceptions result) of
        Inl e \<Rightarrow> Inl e
      | Inr entries \<Rightarrow>
          (case process_entries fl quiz_meta entries ([], []) of
             Inl e \<Rightarrow> Inl e
           | Inr (items, all_sources) \<Rightarrow>
               Inr \<lparr>ctx_result_id = result_id result,
                    ctx_session_id = session_id result,
                    ctx_quiz_link_id = quiz_link_id result,
                    ctx_created_at = created_at result,
                    ctx_summary = make_summary fl items,
                    ctx_items = items,
                    candidate_sources = map (\<lambda>kv. source_dict fl (snd kv)) all_sources\<rparr>))"


subsection \<open>The claims' own words\<close>

text \<open>
  A value is numeric when \<open>float()\<close> accepts it. The mean of absolute differences is
  taken over exactly the perception entries whose guess and actual value are both
  numeric, and is undefined (\<open>None\<close>) when there is no such entry.
\<close>

definition numeric :: "'f float_ops \<Rightarrow> 'f json \<Rightarrow> bool" where
  "numeric fl v = (case py_float fl v of Inl e \<Rightarrow> False | Inr x \<Rightarrow> True)"

definition both_numeric :: "'f float_ops \<Rightarrow> (string \<times> 'f json) list \<Rightarrow> bool" where
  "both_numeric fl kvs =
     (numeric fl (obj_get kvs ''userGuessValue'') \<and> numeric fl (obj_get kvs ''actualValue''))"

definition abs_difference :: "'f float_ops \<Rightarrow> (string \<times> 'f json) list \<Rightarrow> 'f" where
  "abs_difference fl kvs =
     f_abs fl (f_sub fl (projr (py_float fl (obj_get kvs ''userGuessValue'')))
                        (projr (py_float fl (obj_get kvs ''actualValue''))))"

definition mean_of_abs_differences ::
  "'f float_ops \<Rightarrow> (string \<times> 'f json) list list \<Rightarrow> 'f option" where
  "mean_of_abs_differences fl kvss =
     (let ds = map (abs_difference fl) (filter (both_numeric fl) kvss)
      in if ds = [] then None else Some (f_truediv fl (f_sum fl ds) (length ds)))"

text \<open>
  The sources the loop visits, in order, and the last of them that carries a given URL.
\<close>

definition visited_sources ::
  "'f float_ops \<Rightarrow> (string \<times> 'f QuestionMeta) list \<Rightarrow> (string \<times> 'f json) list list \<Rightarrow>
   'f Source list" where
  "visited_sources fl quiz_meta kvss =
     concat (map (\<lambda>kvs. meta_sources (map_of quiz_meta (entry_qid fl kvs))) kvss)"

fun last_with_url :: "string \<Rightarrow> 'f Source list \<Rightarrow> 'f Source option" where
  "last_with_url u [] = None"
| "last_with_url u (s # ss) =
     (case last_with_url u ss of
        Some t \<Rightarrow> Some t
      | None \<Rightarrow> if url s = u then Some s else None)"

section \<open>The loaders\<close>

text \<open>
  \<open>csv.DictReader\<close> yields the rows; a row maps a column name to its cell, and a cell is
  \<open>None\<close> where the line is shorter than the header. \<open>json.loads\<close> is the parameter
  \<open>loads\<close>: it returns the decoded value or the exception it raises, a
  \<open>JSONDecodeError\<close> with its message, the text and the position, or another one.
\<close>

type_synonym row = "(string \<times> string option) list"

definition row_get :: "row \<Rightarrow> string \<Rightarrow> string option" where
  "row_get r k = (case map_of r k of None \<Rightarrow> None | Some c \<Rightarrow> c)"

definition cell :: "row \<Rightarrow> string \<Rightarrow> string" where
  "cell r k = (case row_get r k of None \<Rightarrow> [] | Some s \<Rightarrow> s)"

fun collapse_quotes :: "string \<Rightarrow> string" where
  "collapse_quotes (a # b # s) =
     (if a = CHR 0x22 \<and> b = CHR 0x22 then CHR 0x22 # collapse_quotes s
      else a # collapse_quotes (b # s))"
| "collapse_quotes s = s"

text \<open>
  The \<open>try\<close> around \<open>json.loads(s)\<close>: the handler catches the decode error only and
  calls \<open>json.loads\<close> on the text with doubled quotes collapsed; what that second call
  raises leaves the loader.
\<close>

definition decode_cell :: "(string \<Rightarrow> py_error + 'f json) \<Rightarrow> string \<Rightarrow> py_error + 'f json" where
  "decode_cell loads s =
     (case loads s of
        Inr v \<Rightarrow> Inr v
      | Inl e \<Rightarrow>
          (case e of
             JSONDecodeError m d p \<Rightarrow> loads (collapse_quotes s)
           | _ \<Rightarrow> Inl e))"

fun parse_sources :: "'f float_ops \<Rightarrow> 'f json list \<Rightarrow> py_error + 'f Source list" where
  "parse_sources fl [] = Inr []"
| "parse_sources fl (JObj kvs # ss) =
     (let u = py_strip (py_str fl (py_or fl (obj_get kvs ''url'') (JStr [])))
      in if u = [] then parse_sources fl ss
         else (case parse_sources fl ss of
                 Inl e \<Rightarrow> Inl e
               | Inr rest \<Rightarrow> Inr (\<lparr>name = py_or fl (obj_get kvs ''name'') JNull, url = u\<rparr> # rest)))"
| "parse_sources fl (_ # ss) = Inl AttributeError"

text \<open>
  \<open>parse_sources\<close> is the inner loop over \<open>item.get("sources") or []\<close>: a source that
  is not a dict raises AttributeError at \<open>s.get\<close>, and the list is lost with it.
\<close>

fun parse_questions ::
  "'f float_ops \<Rightarrow> 'f json list \<Rightarrow> (string \<times> 'f QuestionMeta) list \<Rightarrow>
   py_error + (string \<times> 'f QuestionMeta) list" where
  "parse_questions fl [] qmap = Inr qmap"
| "parse_questions fl (JObj kvs # its) qmap =
     (let q = py_strip (py_str fl
                (py_or fl (py_or fl (obj_get kvs ''id'') (obj_get kvs ''questionId'')) (JStr [])))
      in if q = [] then parse_questions fl its qmap
         else
           (case py_iter (py_or fl (obj_get kvs ''sources'') (JList [])) of
              Inl e \<Rightarrow> Inl e
            | Inr ss \<Rightarrow>
                (case parse_sources fl ss of
                   Inl e \<Rightarrow> Inl e
                 | Inr sources_list \<Rightarrow>
                     parse_questions fl its
                       (dict_set qmap q
                          \<lparr>qid = q,
                           question = py_strip (py_str fl
                             (py_or fl (py_or fl (obj_get kvs ''question'') (obj_get kvs ''questionText''))
                                (JStr []))),
                           category = py_or fl (obj_get kvs ''category'') JNull,
                           sources = sources_list\<rparr>))))"
| "parse_questions fl (_ # its) qmap = Inl AttributeError"

fun quizzes_loop ::
  "'f float_ops \<Rightarrow> (string \<Rightarrow> py_error + 'f json) \<Rightarrow> row list \<Rightarrow>
   (string \<times> (string \<times> 'f QuestionMeta) list) list \<Rightarrow>
   py_error + (string \<times> (string \<times> 'f QuestionMeta) list) list" where
  "quizzes_loop fl loads [] quizzes = Inr quizzes"
| "quizzes_loop fl loads (r # rows) quizzes =
     (if r = [] then quizzes_loop fl loads rows quizzes
      else
        let quiz_link_id = py_strip (cell r ''Quiz Link ID'') in
        if quiz_link_id = [] then quizzes_loop fl loads rows quizzes
        else
          let qjson_str = py_strip (cell r ''Questions JSON'') in
          if qjson_str = [] then quizzes_loop fl loads rows quizzes
          else
            (case decode_cell loads qjson_str of
               Inl e \<Rightarrow> Inl e
             | Inr qitems \<Rightarrow>
                 (case py_iter qitems of
                    Inl e \<Rightarrow> Inl e
                  | Inr its \<Rightarrow>
                      (case parse_questions fl its [] of
                         Inl e \<Rightarrow> Inl e
                       | Inr qmap \<Rightarrow>
                           quizzes_loop fl loads rows (dict_set quizzes quiz_link_id qmap)))))"

definition load_quizzes ::
  "'f float_ops \<Rightarrow> (string \<Rightarrow> py_error + 'f json) \<Rightarrow> row list \<Rightarrow>
   py_error + (string \<times> (string \<times> 'f QuestionMeta) list) list" where
  "load_quizzes fl loads rows = quizzes_loop fl loads rows []"

definition norm_row :: "row \<Rightarrow> 'f json \<Rightarrow> 'f result" where
  "norm_row r ps =
     \<lparr>result_id = py_strip (cell r ''Result ID''),
      session_id = py_strip (cell r ''Session ID''),
      quiz_link_id = py_strip (cell r ''Quiz Link ID''),
      pki_score = row_get r ''PKI Score'',
      created_at = py_strip (cell r ''Created At''),
      perceptions = ps\<rparr>"

fun results_loop ::
  "(string \<Rightarrow> py_error + 'f json) \<Rightarrow> row list \<Rightarrow> 'f result list \<Rightarrow> py_error + 'f result list" where
  "results_loop loads [] acc = Inr acc"
| "results_loop loads (r # rows) acc =
     (if r = [] then results_loop loads rows acc
      else
        let pjson_str = py_strip (cell r ''Perceptions JSON'') in
        (case (if pjson_str \<noteq> [] then decode_cell loads pjson_str else Inr (JList [])) of
           Inl e \<Rightarrow> Inl e
         | Inr ps \<Rightarrow>
             let norm = norm_row r ps in
             if result_id norm \<noteq> [] then results_loop loads rows (acc @ [norm])
             else results_loop loads rows acc))"

definition load_results ::
  "(string \<Rightarrow> py_error + 'f json) \<Rightarrow> row list \<Rightarrow> py_error + 'f result list" where
  "load_results loads rows = results_loop loads rows []"

text \<open>
  The claims' words for the loaders: a row has a result id when the stripped cell is not
  empty; its perceptions cell decodes when it is empty or \<open>decode_cell\<close> returns a
  value; the record of a row whose cell decodes.
\<close>

definition has_result_id :: "row \<Rightarrow> bool" where
  "has_result_id r = (r \<noteq> [] \<and> py_strip (cell r ''Result ID'') \<noteq> [])"

definition cell_decodes :: "(string \<Rightarrow> py_error + 'f json) \<Rightarrow> row \<Rightarrow> bool" where
  "cell_decodes loads r =
     (py_strip (cell r ''Perceptions JSON'') = [] \<or>
      (case decode_cell loads (py_strip (cell r ''Perceptions JSON'')) of
         Inl e \<Rightarrow> False | Inr v \<Rightarrow> True))"

definition record_of_row :: "(string \<Rightarrow> py_error + 'f json) \<Rightarrow> row \<Rightarrow> 'f result" where
  "record_of_row loads r =
     norm_row r (if py_strip (cell r ''Perceptions JSON'') = [] then JList []
                 else projr (decode_cell loads (py_strip (cell r ''Perceptions JSON''))))"


section \<open>The .env loader\<close>

text \<open>
  \<open>load_env_file\<close> is defined twice with the same body: inside \<open>main\<close> of the analysis
  tool and at module level in the trends tool. \<open>os.environ\<close> is a map from names to
  values; the file is \<open>None\<close> when it does not exist or cannot be read and decoded.
\<close>

type_synonym environ = "string \<rightharpoonup> string"

definition is_linebreak :: "char \<Rightarrow> bool" where
  "is_linebreak c = (of_char c \<in> {10, 11, 12, 13, 28, 29, 30, 133 :: nat})"

fun split_acc :: "string \<Rightarrow> string \<Rightarrow> string list" where
  "split_acc cur [] = (if cur = [] then [] else [rev cur])"
| "split_acc cur (c # s) =
     (if c = CHR 0x0D then
        (case s of
           [] \<Rightarrow> [rev cur]
         | d # s' \<Rightarrow> if d = CHR 0x0A then rev cur # split_acc [] s' else rev cur # split_acc [] s)
      else if is_linebreak c then rev cur # split_acc [] s
      else split_acc (c # cur) s)"

definition splitlines :: "string \<Rightarrow> string list" where
  "splitlines s = split_acc [] s"

definition startswith :: "string \<Rightarrow> string \<Rightarrow> bool" where
  "startswith s p = (take (length p) s = p)"

definition lower_char :: "char \<Rightarrow> char" where
  "lower_char c =
     (let n = (of_char c :: nat)
      in if (65 \<le> n \<and> n \<le> 90) \<or> (192 \<le> n \<and> n \<le> 222 \<and> n \<noteq> 215) then char_of (n + 32) else c)"

definition py_lower :: "string \<Rightarrow> string" where
  "py_lower s = map lower_char s"

definition strip_chars :: "string \<Rightarrow> string \<Rightarrow> string" where
  "strip_chars cs s = rev (dropWhile (\<lambda>c. c \<in> set cs) (rev (dropWhile (\<lambda>c. c \<in> set cs) s)))"

text \<open>
  \<open>os.environ[key] = val\<close> raises ValueError when the name or the value holds a NUL
  character (the name is not empty and has no \<open>=\<close> where the loader stores).
\<close>

definition environ_set :: "environ \<Rightarrow> string \<Rightarrow> string \<Rightarrow> py_error + environ" where
  "environ_set env key val =
     (if CHR 0x00 \<in> set key \<or> CHR 0x00 \<in> set val then Inl ValueError else Inr (env(key \<mapsto> val)))"

definition env_line :: "environ \<Rightarrow> string \<Rightarrow> py_error + environ" where
  "env_line env raw =
     (let line = py_strip raw in
      if line = [] \<or> startswith line ''#'' then Inr env
      else
        let line = (if startswith (py_lower line) ''export '' then py_lstrip (drop 7 line) else line) in
        if CHR ''='' \<notin> set line then Inr env
        else
          let key = py_strip (takeWhile (\<lambda>c. c \<noteq> CHR ''='') line);
              val = strip_chars [CHR 0x27]
                      (strip_chars [CHR 0x22] (py_strip (tl (dropWhile (\<lambda>c. c \<noteq> CHR ''='') line))))
          in if key \<noteq> [] \<and> env key = None then environ_set env key val else Inr env)"

text \<open>The loop inside \<open>try\<close>: an exception ends it, and the handler passes.\<close>

fun load_lines :: "environ \<Rightarrow> string list \<Rightarrow> environ" where
  "load_lines env [] = env"
| "load_lines env (raw # rest) =
     (case env_line env raw of
        Inl e \<Rightarrow> env
      | Inr env' \<Rightarrow> load_lines env' rest)"

definition load_env_file :: "environ \<Rightarrow> string option \<Rightarrow> environ" where
  "load_env_file env file =
     (case file of
        None \<Rightarrow> env
      | Some text \<Rightarrow> load_lines env (splitlines text))"

section \<open>The trends tool: choice of sources\<close>

text \<open>
  The part of \<open>main\<close> of the trends tool between the parsing of the arguments and the
  printing of the search results. The two fetchers talk to the network, so what they
  return is an input of the model: \<open>rt\<close> is the dict \<open>fetch_gb_realtime\<close> returns,
  \<open>rss_fallback\<close> and \<open>rss_requested\<close> are what \<open>fetch_gb_daily_rss\<close> returns at its
  two call sites. A fetcher returns either \<open>{"error": message}\<close> or a dict with
  \<open>"items"\<close>. What the program does is a trace of calls and prints; the formatting of
  one item line is not modelled, an event carries the items printed.
\<close>

datatype 'a fetched = Failed string | Fetched "'a list"

fun get_error :: "'a fetched \<Rightarrow> string" where
  "get_error (Failed msg) = msg"
| "get_error (Fetched xs) = []"

fun get_items :: "'a fetched \<Rightarrow> 'a list" where
  "get_items (Failed msg) = []"
| "get_items (Fetched xs) = xs"

record trend_args =
  max_results :: int
  include_rss :: bool
  realtime :: bool
  search_only :: bool

datatype ('a, 'b) event =
    Call_realtime int
  | Call_rss
  | Print string
  | Print_realtime_items "'a list"
  | Print_rss_items "'b list"

definition slice_to :: "int \<Rightarrow> 'a list \<Rightarrow> 'a list" where
  "slice_to n xs = (if 0 \<le> n then take (nat n) xs else take (nat (int (length xs) + n)) xs)"

definition default_source :: "trend_args \<Rightarrow> trend_args" where
  "default_source args =
     (if \<not> include_rss args \<and> \<not> realtime args \<and> \<not> search_only args
      then args\<lparr>realtime := True\<rparr> else args)"

definition print_rss :: "trend_args \<Rightarrow> 'b fetched \<Rightarrow> ('a, 'b) event list" where
  "print_rss args rss =
     (if get_error rss \<noteq> [] then [Print (get_error rss)]
      else [Print_rss_items (slice_to (max_results args) (get_items rss))])"

definition realtime_block :: "trend_args \<Rightarrow> 'a fetched \<Rightarrow> 'b fetched \<Rightarrow> ('a, 'b) event list" where
  "realtime_block args rt rss_fallback =
     (if realtime args then
        [Print (CHR 0x0A # ''GB Realtime Trending (web UI API):''), Call_realtime (max_results args)] @
        (if get_error rt \<noteq> [] then
           [Print (get_error rt), Print ''Falling back to GB Daily RSS...'', Call_rss] @
           print_rss args rss_fallback
         else [Print_realtime_items (get_items rt)])
      else [])"

definition rss_block :: "trend_args \<Rightarrow> 'b fetched \<Rightarrow> ('a, 'b) event list" where
  "rss_block args rss_requested =
     (if include_rss args then
        [Print (CHR 0x0A # ''GB Daily Trending Searches (RSS):''), Call_rss] @
        print_rss args rss_requested
      else [])"

definition trend_sources ::
  "trend_args \<Rightarrow> 'a fetched \<Rightarrow> 'b fetched \<Rightarrow> 'b fetched \<Rightarrow> ('a, 'b) event list" where
  "trend_sources args0 rt rss_fallback rss_requested =
     (let args = default_source args0
      in realtime_block args rt rss_fallback @ rss_block args rss_requested)"

text \<open>
  The realtime source is in effect when it is asked for, or when no flag is given.
\<close>

definition realtime_in_effect :: "trend_args \<Rightarrow> bool" where
  "realtime_in_effect args = (realtime args \<or> (\<not> include_rss args \<and> \<not> search_only args))"

definition rss_calls :: "('a, 'b) event list \<Rightarrow> nat" where
  "rss_calls tr = length (filter (\<lambda>e. case e of Call_rss \<Rightarrow> True | _ \<Rightarrow> False) tr)"

definition realtime_calls :: "('a, 'b) event list \<Rightarrow> nat" where
  "realtime_calls tr = length (filter (\<lambda>e. case e of Call_realtime n \<Rightarrow> True | _ \<Rightarrow> False) tr)"

section \<open>The prompt composer\<close>

text \<open>
  \<open>json.dumps(payload, ensure_ascii=False)\<close> with the default separators, on the
  values of type \<open>json\<close>: every such value is serialisable, so the call does not raise.
\<close>

definition json_escape :: "char \<Rightarrow> string" where
  "json_escape c =
     (if c = CHR 0x22 then [CHR 0x5C, CHR 0x22]
      else if c = CHR 0x5C then [CHR 0x5C, CHR 0x5C]
      else if c = CHR 0x0A then [CHR 0x5C, CHR ''n'']
      else if c = CHR 0x0D then [CHR 0x5C, CHR ''r'']
      else if c = CHR 0x09 then [CHR 0x5C, CHR ''t'']
      else if c = CHR 0x08 then [CHR 0x5C, CHR ''b'']
      else if c = CHR 0x0C then [CHR 0x5C, CHR ''f'']
      else if (of_char c :: nat) < 32 then
        [CHR 0x5C, CHR ''u'', CHR ''0'', CHR ''0'',
         hex_char (of_char c div 16), hex_char (of_char c mod 16)]
      else [c])"

definition json_quote :: "string \<Rightarrow> string" where
  "json_quote s = CHR 0x22 # concat (map json_escape s) @ [CHR 0x22]"

fun dumps :: "'f float_ops \<Rightarrow> 'f json \<Rightarrow> string" where
  "dumps fl JNull = ''null''"
| "dumps fl (JBool b) = (if b then ''true'' else ''false'')"
| "dumps fl (JInt i) = str_int i"
| "dumps fl (JFloat x) = f_json fl x"
| "dumps fl (JStr s) = json_quote s"
| "dumps fl (JList xs) = ''['' @ join '', '' (map (dumps fl) xs) @ '']''"
| "dumps fl (JObj kvs) =
     ''{'' @ join '', '' (map (\<lambda>kv. json_quote (fst kv) @ '': '' @ dumps fl (snd kv)) kvs) @ ''}''"

record message =
  role :: string
  content :: string

definition sys_prompt :: string where
  "sys_prompt =
     ''You are an educational explainer and fact-grounded analyst. '' @
     ''Given a user'' @ [CHR 0x27] @ ''s quiz results that compare their guesses against actual values, '' @
     ''identify key misconceptions, quantify where possible, and offer concise, actionable guidance to learn. '' @
     ''Cite sources with direct URLs. Prefer the provided candidate sources when relevant. '' @
     ''Be neutral, clear, and avoid fluff.''"

definition payload_members :: "'f json \<Rightarrow> (string \<times> 'f json) list" where
  "payload_members context =
     [(''task'', JStr ''Analyze quiz performance and provide educational guidance with citations.''),
      (''result_context'', context),
      (''requirements'',
         JList [JStr ''Summarize overall performance and common patterns of error/bias.'',
                JStr ''For each theme/misconception, explain briefly and suggest how to recalibrate.'',
                JStr ''Include 4-8 relevant sources with URLs; prefer candidate_sources when suitable.'',
                JStr ''Return a short bullet list of next steps for learning.'']),
      (''format'',
         JObj [(''style'', JStr ''markdown''),
               (''sections'',
                  JList [JStr ''Overview'', JStr ''Key Misconceptions'',
                         JStr ''Recommended Sources'', JStr ''Next Steps''])])]"

definition user_payload :: "'f json \<Rightarrow> 'f json" where
  "user_payload context = JObj (payload_members context)"

definition build_prompt_messages :: "'f float_ops \<Rightarrow> 'f json \<Rightarrow> message list" where
  "build_prompt_messages fl context =
     [\<lparr>role = ''system'', content = sys_prompt\<rparr>,
      \<lparr>role = ''user'', content = dumps fl (user_payload context)\<rparr>]"

text \<open>
  The context is a Python dict; \<open>context_json\<close> is that dict as a value, with the keys
  in the order the builder writes them.
\<close>

definition opt_float :: "'f option \<Rightarrow> 'f json" where
  "opt_float e = (case e of None \<Rightarrow> JNull | Some x \<Rightarrow> JFloat x)"

definition source_entry_json :: "'f source_entry \<Rightarrow> 'f json" where
  "source_entry_json s = JObj [(''name'', entry_name s), (''url'', JStr (entry_url s))]"

definition item_json :: "'f item \<Rightarrow> 'f json" where
  "item_json i =
     JObj [(''question_id'', JStr (question_id i)),
           (''question'', JStr (item_question i)),
           (''category'', item_category i),
           (''user_guess'', user_guess i),
           (''actual_value'', actual_value i),
           (''abs_error'', opt_float (abs_error i)),
           (''sources'', JList (map source_entry_json (item_sources i)))]"

definition context_json :: "'f analysis_context \<Rightarrow> 'f json" where
  "context_json ctx =
     JObj [(''result_id'', JStr (ctx_result_id ctx)),
           (''session_id'', JStr (ctx_session_id ctx)),
           (''quiz_link_id'', JStr (ctx_quiz_link_id ctx)),
           (''created_at'', JStr (ctx_created_at ctx)),
           (''summary'',
              JObj [(''num_questions'', JInt (int (num_questions (ctx_summary ctx)))),
                    (''mean_abs_error'', opt_float (mean_abs_error (ctx_summary ctx))),
                    (''num_with_sources'', JInt (int (num_with_sources (ctx_summary ctx))))]),
           (''items'', JList (map item_json (ctx_items ctx))),
           (''candidate_sources'', JList (map source_entry_json (candidate_sources ctx)))]"

text \<open>
  The body of the loop over the results in \<open>main\<close> of the analysis tool, up to the
  decision to call the backend: the quiz of the result is looked up, the context and the
  messages are built, and \<open>do_call\<close> is read from the arguments and the environment.
\<close>

record prompt_step =
  messages :: "message list"
  do_call :: bool

definition getenv_set :: "environ \<Rightarrow> string \<Rightarrow> bool" where
  "getenv_set env k = (case env k of None \<Rightarrow> False | Some v \<Rightarrow> v \<noteq> [])"

definition process_result ::
  "'f float_ops \<Rightarrow> environ \<Rightarrow> bool \<Rightarrow> (string \<times> (string \<times> 'f QuestionMeta) list) list \<Rightarrow>
   'f result \<Rightarrow> py_error + prompt_step" where
  "process_result fl env dry_run quizzes res =
     (let qmeta = (case map_of quizzes (quiz_link_id res) of None \<Rightarrow> [] | Some qm \<Rightarrow> qm)
      in case build_context_for_result fl res qmeta of
           Inl e \<Rightarrow> Inl e
         | Inr context \<Rightarrow>
             Inr \<lparr>messages = build_prompt_messages fl (context_json context),
                  do_call = (\<not> dry_run \<and>
                             (getenv_set env ''PPLX_API_KEY'' \<or> getenv_set env ''PERPLEXITY_API_KEY''))\<rparr>)"

section \<open>JSON texts\<close>

text \<open>
  The texts \<open>json.loads\<close> accepts, as a grammar: whitespace, string literals with their
  escapes, numbers and the three constants Python adds for floats, arrays and objects.
  \<open>json_members t ks\<close> holds when \<open>t\<close> is a list of members whose keys, decoded, are
  \<open>ks\<close> in order.
\<close>

definition json_ws :: "string \<Rightarrow> bool" where
  "json_ws w = list_all (\<lambda>c. c = CHR 0x20 \<or> c = CHR 0x09 \<or> c = CHR 0x0A \<or> c = CHR 0x0D) w"

definition hex_val :: "char \<Rightarrow> nat option" where
  "hex_val c =
     (let n = (of_char c :: nat)
      in if 48 \<le> n \<and> n \<le> 57 then Some (n - 48)
         else if 97 \<le> n \<and> n \<le> 102 then Some (n - 87)
         else if 65 \<le> n \<and> n \<le> 70 then Some (n - 55)
         else None)"

definition unescape :: "char \<Rightarrow> char option" where
  "unescape e =
     (if e = CHR 0x22 then Some (CHR 0x22)
      else if e = CHR 0x5C then Some (CHR 0x5C)
      else if e = CHR ''/'' then Some (CHR ''/'')
      else if e = CHR ''b'' then Some (CHR 0x08)
      else if e = CHR ''f'' then Some (CHR 0x0C)
      else if e = CHR ''n'' then Some (CHR 0x0A)
      else if e = CHR ''r'' then Some (CHR 0x0D)
      else if e = CHR ''t'' then Some (CHR 0x09)
      else None)"

inductive string_chars :: "string \<Rightarrow> string \<Rightarrow> bool" where
  chars_end: "string_chars [] []"
| chars_plain:
    "c \<noteq> CHR 0x22 \<Longrightarrow> c \<noteq> CHR 0x5C \<Longrightarrow> 32 \<le> (of_char c :: nat) \<Longrightarrow> string_chars t s \<Longrightarrow>
     string_chars (c # t) (c # s)"
| chars_escape:
    "unescape e = Some c \<Longrightarrow> string_chars t s \<Longrightarrow> string_chars (CHR 0x5C # e # t) (c # s)"
| chars_hex:
    "hex_val a = Some x \<Longrightarrow> hex_val b = Some y \<Longrightarrow> string_chars t s \<Longrightarrow>
     string_chars (CHR 0x5C # CHR ''u'' # CHR ''0'' # CHR ''0'' # a # b # t) (char_of (16 * x + y) # s)"

definition string_literal :: "string \<Rightarrow> string \<Rightarrow> bool" where
  "string_literal t s = (\<exists>b. t = CHR 0x22 # b @ [CHR 0x22] \<and> string_chars b s)"

definition digit_run :: "string \<Rightarrow> bool" where
  "digit_run ds = (ds \<noteq> [] \<and> list_all is_digit ds)"

definition json_int :: "string \<Rightarrow> bool" where
  "json_int s =
     (let ds = (case s of [] \<Rightarrow> [] | c # r \<Rightarrow> if c = CHR ''-'' then r else s)
      in digit_run ds \<and> (1 < length ds \<longrightarrow> hd ds \<noteq> CHR ''0''))"

definition json_exp :: "string \<Rightarrow> bool" where
  "json_exp e =
     (case e of
        [] \<Rightarrow> True
      | c # r \<Rightarrow> digit_run (case r of [] \<Rightarrow> [] | d # r' \<Rightarrow> if d = CHR ''+'' \<or> d = CHR ''-'' then r' else r))"

definition json_number :: "string \<Rightarrow> bool" where
  "json_number s =
     (let m = takeWhile (\<lambda>c. c \<noteq> CHR ''e'' \<and> c \<noteq> CHR ''E'') s;
          e = dropWhile (\<lambda>c. c \<noteq> CHR ''e'' \<and> c \<noteq> CHR ''E'') s;
          ip = takeWhile (\<lambda>c. c \<noteq> CHR ''.'') m;
          fp = dropWhile (\<lambda>c. c \<noteq> CHR ''.'') m
      in json_int ip \<and> (fp = [] \<or> digit_run (tl fp)) \<and> json_exp e)"

definition float_text :: "string \<Rightarrow> bool" where
  "float_text s = (json_number s \<or> s = ''NaN'' \<or> s = ''Infinity'' \<or> s = ''-Infinity'')"

inductive json_value :: "string \<Rightarrow> bool"
  and json_element :: "string \<Rightarrow> bool"
  and json_elements :: "string \<Rightarrow> bool"
  and json_members :: "string \<Rightarrow> string list \<Rightarrow> bool"
where
  value_null: "json_value ''null''"
| value_true: "json_value ''true''"
| value_false: "json_value ''false''"
| value_number: "float_text t \<Longrightarrow> json_value t"
| value_string: "string_literal t s \<Longrightarrow> json_value t"
| value_empty_array: "json_ws w \<Longrightarrow> json_value (''['' @ w @ '']'')"
| value_array: "json_elements t \<Longrightarrow> json_value (''['' @ t @ '']'')"
| value_empty_object: "json_ws w \<Longrightarrow> json_value (''{'' @ w @ ''}'')"
| value_object: "json_members t ks \<Longrightarrow> json_value (''{'' @ t @ ''}'')"
| element: "json_ws w1 \<Longrightarrow> json_value v \<Longrightarrow> json_ws w2 \<Longrightarrow> json_element (w1 @ v @ w2)"
| elements_last: "json_element e \<Longrightarrow> json_elements e"
| elements_more: "json_element e \<Longrightarrow> json_elements t \<Longrightarrow> json_elements (e @ CHR '','' # t)"
| members_last:
    "json_ws w1 \<Longrightarrow> string_literal kt k \<Longrightarrow> json_ws w2 \<Longrightarrow> json_element e \<Longrightarrow>
     json_members (w1 @ kt @ w2 @ CHR '':'' # e) [k]"
| members_more:
    "json_ws w1 \<Longrightarrow> string_literal kt k \<Longrightarrow> json_ws w2 \<Longrightarrow> json_element e \<Longrightarrow>
     json_members t ks \<Longrightarrow>
     json_members (w1 @ kt @ w2 @ CHR '':'' # e @ CHR '','' # t) (k # ks)"

definition json_object_text :: "string \<Rightarrow> string list \<Rightarrow> bool" where
  "json_object_text t ks = (\<exists>m. t = ''{'' @ m @ ''}'' \<and> json_members m ks)"


section \<open>Exact arithmetic as an instance of the float operations\<close>

text \<open>
  Rational numbers with exact arithmetic, used to evaluate the functions on concrete
  inputs. \<open>exact_of_str\<close> reads plain decimal notation (sign, digits, optional
  fraction); \<open>exact_str\<close> writes the integer part and up to 17 fractional digits.
\<close>

definition digits_val :: "string \<Rightarrow> nat" where
  "digits_val ds = foldl (\<lambda>n c. 10 * n + (of_char c - 48)) 0 ds"

definition exact_of_str :: "string \<Rightarrow> rat option" where
  "exact_of_str s =
     (let t = py_strip s;
          neg = (case t of [] \<Rightarrow> False | c # r \<Rightarrow> c = CHR ''-'');
          body = (case t of [] \<Rightarrow> [] | c # r \<Rightarrow> if c = CHR ''-'' \<or> c = CHR ''+'' then r else t);
          ip = takeWhile is_digit body;
          rest = dropWhile is_digit body;
          fd = (case rest of [] \<Rightarrow> Some [] | c # r \<Rightarrow> if c = CHR ''.'' then Some r else None)
      in case fd of
           None \<Rightarrow> None
         | Some fs \<Rightarrow>
             if \<not> list_all is_digit fs \<or> (ip = [] \<and> fs = []) then None
             else Some ((if neg then - 1 else 1) *
                        (of_nat (digits_val ip) + of_nat (digits_val fs) / 10 ^ length fs)))"

fun frac_digits :: "nat \<Rightarrow> rat \<Rightarrow> string" where
  "frac_digits 0 x = []"
| "frac_digits (Suc k) x =
     (let d = nat \<lfloor>10 * x\<rfloor> in digit_char d # frac_digits k (10 * x - of_nat d))"

definition exact_str :: "rat \<Rightarrow> string" where
  "exact_str r =
     (let a = \<bar>r\<bar>;
          ip = nat \<lfloor>a\<rfloor>;
          fs = rev (dropWhile (\<lambda>c. c = CHR ''0'') (rev (frac_digits 17 (a - of_nat ip))))
      in (if r < 0 then ''-'' else []) @ digits ip @ ''.'' @ (if fs = [] then ''0'' else fs))"

definition exact_ops :: "rat float_ops" where
  "exact_ops =
     \<lparr>f_of_int = (\<lambda>i. Some (of_int i)),
      f_of_str = exact_of_str,
      f_sub = (\<lambda>x y. x - y),
      f_abs = abs,
      f_sum = sum_list,
      f_truediv = (\<lambda>x n. x / of_nat n),
      f_is_zero = (\<lambda>x. x = 0),
      f_str = exact_str,
      f_json = exact_str\<rparr>"


section \<open>Example inputs\<close>

definition example_entries :: "(string \<times> rat json) list list" where
  "example_entries =
     [[(''questionId'', JStr ''q1''), (''userGuessValue'', JInt 10), (''actualValue'', JInt 15)],
      [(''questionId'', JStr ''q2''), (''userGuessValue'', JStr ''bad''), (''actualValue'', JInt 5),
       (''questionText'', JStr '' How many? '')]]"

definition example_result :: "rat result" where
  "example_result =
     \<lparr>result_id = ''r1'', session_id = ''s1'', quiz_link_id = ''quiz'', pki_score = Some ''50'',
      created_at = ''2024-01-01'', perceptions = JList (map JObj example_entries)\<rparr>"

definition example_quiz :: "(string \<times> rat QuestionMeta) list" where
  "example_quiz =
     [(''q1'', \<lparr>qid = ''q1'', question = ''Capital of France?'', category = JNull,
               sources = [\<lparr>name = JStr ''First'', url = ''https://a''\<rparr>]\<rparr>),
      (''q2'', \<lparr>qid = ''q2'', question = ''Population?'', category = JStr ''geo'',
               sources = [\<lparr>name = JStr ''Second'', url = ''https://a''\<rparr>,
                          \<lparr>name = JNull, url = ''https://b''\<rparr>]\<rparr>)]"

definition example_environ :: environ where
  "example_environ = [''PPLX_API_KEY'' \<mapsto> ''preset'']"

definition example_env_head :: string where
  "example_env_head = ''# keys'' @ [CHR 0x0A] @ ''export PPLX_API_KEY=fromfile''"

definition example_env_bad :: string where
  "example_env_bad = ''not an assignment''"

definition example_env_tail :: string where
  "example_env_tail = ''OTHER = '' @ [CHR 0x22] @ ''abc'' @ [CHR 0x22, CHR 0x0A]"

definition example_failure :: "string fetched" where
  "example_failure = Failed ''Failed to fetch realtime trends: timed out''"

definition example_args :: trend_args where
  "example_args = \<lparr>max_results = 2, include_rss = False, realtime = False, search_only = False\<rparr>"

text \<open>
  A decoder for the examples: it agrees with \<open>json.loads\<close> on the two cells used
  below, the text of the empty list and the text \<open>x\<close>, which is not JSON.
\<close>

definition example_loads :: "string \<Rightarrow> py_error + rat json" where
  "example_loads s =
     (if s = ''[]'' then Inr (JList []) else Inl (JSONDecodeError ''Expecting value'' s 0))"

definition good_quiz_row :: row where
  "good_quiz_row = [(''Quiz Link ID'', Some ''quiz1''), (''Questions JSON'', Some ''[]'')]"

definition bad_quiz_row :: row where
  "bad_quiz_row = [(''Quiz Link ID'', Some ''quiz2''), (''Questions JSON'', Some ''x'')]"

definition unnamed_bad_quiz_row :: row where
  "unnamed_bad_quiz_row = [(''Quiz Link ID'', Some []), (''Questions JSON'', Some ''x'')]"

definition blank_cell_quiz_row :: row where
  "blank_cell_quiz_row = [(''Quiz Link ID'', Some ''quiz3''), (''Questions JSON'', Some '' '')]"

definition example_result_rows :: "row list" where
  "example_result_rows =
     [[(''Result ID'', Some ''r1''), (''Session ID'', Some ''s1''), (''Perceptions JSON'', Some ''[]'')],
      [(''Result ID'', Some '' ''), (''Session ID'', Some ''s2''), (''Perceptions JSON'', Some ''[]'')],
      [(''Result ID'', Some ''r3''), (''Session ID'', Some ''s3''), (''Perceptions JSON'', None)]]"

definition bad_result_row :: row where
  "bad_result_row = [(''Result ID'', Some ''r4''), (''Perceptions JSON'', Some ''x'')]"


definition example_context :: "rat json" where
  "example_context =
     (case build_context_for_result exact_ops example_result example_quiz of
        Inl e \<Rightarrow> JNull
      | Inr ctx \<Rightarrow> context_json ctx)"


section \<open>Properties of the context builder\<close>

lemma record_sources_append:
  "record_sources d (xs @ ys) = record_sources (record_sources d xs) ys"
  by (induction xs arbitrary: d) simp_all

lemma process_entries_objs:
  "process_entries fl qm (map JObj kvss) (its, srcs) =
     Inr (its @ map (build_item fl qm) kvss, record_sources srcs (visited_sources fl qm kvss))"
  unfolding visited_sources_def
  by (induction kvss arbitrary: its srcs) (simp_all add: record_sources_append)

lemma build_context_objs:
  assumes "perceptions result = JList (map JObj kvss)"
  shows "build_context_for_result fl result qm =
           Inr \<lparr>ctx_result_id = result_id result,
                ctx_session_id = session_id result,
                ctx_quiz_link_id = quiz_link_id result,
                ctx_created_at = created_at result,
                ctx_summary = make_summary fl (map (build_item fl qm) kvss),
                ctx_items = map (build_item fl qm) kvss,
                candidate_sources =
                  map (\<lambda>kv. source_dict fl (snd kv)) (record_sources [] (visited_sources fl qm kvss))\<rparr>"
  by (simp add: build_context_for_result_def assms process_entries_objs)

lemma compute_err_numeric:
  "compute_err fl u a =
     (if numeric fl u \<and> numeric fl a
      then Some (f_abs fl (f_sub fl (projr (py_float fl u)) (projr (py_float fl a)))) else None)"
  by (cases u; cases a) (auto simp: compute_err_def numeric_def split: sum.splits option.splits)

lemma abs_error_build_item:
  "abs_error (build_item fl qm kvs) =
     (if both_numeric fl kvs then Some (abs_difference fl kvs) else None)"
  by (simp add: build_item_def Let_def compute_err_numeric both_numeric_def abs_difference_def)

lemma errors_of_items:
  "List.map_filter abs_error (map (build_item fl qm) kvss) =
     map (abs_difference fl) (filter (both_numeric fl) kvss)"
  by (induction kvss) (simp_all add: List.map_filter_simps abs_error_build_item)

text \<open>
  C1. For a result whose perceptions are a list of entries, the builder returns a
  context whose summary counts the entries in \<open>num_questions\<close> and whose
  \<open>mean_abs_error\<close> is the mean (\<open>sum\<close> divided by the count, in float arithmetic) of
  the absolute differences of exactly the entries with numeric guess and numeric actual
  value; it is \<open>None\<close> exactly when there is no such entry.
\<close>

theorem mean_abs_error_is_mean_over_numeric_items:
  assumes "perceptions result = JList (map JObj kvss)"
  shows "\<exists>ctx. build_context_for_result fl result quiz_meta = Inr ctx \<and>
           num_questions (ctx_summary ctx) = length kvss \<and>
           mean_abs_error (ctx_summary ctx) = mean_of_abs_differences fl kvss \<and>
           (mean_abs_error (ctx_summary ctx) = None \<longleftrightarrow> filter (both_numeric fl) kvss = [])"
proof -
  let ?items = "map (build_item fl quiz_meta) kvss"
  have mean: "mean_abs_error (make_summary fl ?items) = mean_of_abs_differences fl kvss"
    by (simp add: make_summary_def mean_of_abs_differences_def Let_def errors_of_items)
  have none: "mean_of_abs_differences fl kvss = None \<longleftrightarrow> filter (both_numeric fl) kvss = []"
    by (simp add: mean_of_abs_differences_def Let_def)
  have count: "num_questions (make_summary fl ?items) = length kvss"
    by (simp add: make_summary_def Let_def)
  show ?thesis
    using mean none count by (simp add: build_context_objs [OF assms])
qed

lemma example_mean: "mean_of_abs_differences exact_ops example_entries = Some 5"
  by code_simp

theorem mean_abs_error_is_mean_over_numeric_items_witness:
  "perceptions example_result = JList (map JObj example_entries) \<and>
   (case build_context_for_result exact_ops example_result example_quiz of
      Inl e \<Rightarrow> False
    | Inr ctx \<Rightarrow> num_questions (ctx_summary ctx) = 2 \<and> mean_abs_error (ctx_summary ctx) = Some 5)"
proof -
  have p: "perceptions example_result = JList (map JObj example_entries)"
    by (simp add: example_result_def)
  have len: "length example_entries = 2"
    by (simp add: example_entries_def)
  show ?thesis
    using mean_abs_error_is_mean_over_numeric_items [OF p, of exact_ops example_quiz]
    by (auto simp: p len example_mean)
qed

text \<open>
  C2. The absolute error of an item is the absolute difference when both values are
  numeric and \<open>None\<close> otherwise: whenever one of the two \<open>float()\<close> calls raises, the
  item's error is \<open>None\<close>, and the loop body returns for every entry that is a dict.
\<close>

theorem abs_error_only_when_both_numeric:
  "abs_error (build_item fl quiz_meta kvs) =
     (if both_numeric fl kvs then Some (abs_difference fl kvs) else None) \<and>
   (\<forall>e. py_float fl (obj_get kvs ''userGuessValue'') = Inl e \<or>
        py_float fl (obj_get kvs ''actualValue'') = Inl e \<longrightarrow>
        abs_error (build_item fl quiz_meta kvs) = None) \<and>
   (\<forall>items all_sources. \<exists>st.
      process_entries fl quiz_meta [JObj kvs] (items, all_sources) = Inr st)"
proof (intro conjI allI impI)
  show "abs_error (build_item fl quiz_meta kvs) =
     (if both_numeric fl kvs then Some (abs_difference fl kvs) else None)"
    by (rule abs_error_build_item)
next
  fix e
  assume "py_float fl (obj_get kvs ''userGuessValue'') = Inl e \<or>
          py_float fl (obj_get kvs ''actualValue'') = Inl e"
  then have "\<not> both_numeric fl kvs"
    by (auto simp: both_numeric_def numeric_def)
  then show "abs_error (build_item fl quiz_meta kvs) = None"
    by (simp add: abs_error_build_item)
next
  fix items :: "'a item list" and all_sources :: "(string \<times> 'a Source) list"
  show "\<exists>st. process_entries fl quiz_meta [JObj kvs] (items, all_sources) = Inr st"
    by simp
qed

lemma example_bad_guess:
  "py_float exact_ops (obj_get (example_entries ! 1) ''userGuessValue'') = Inl ValueError"
  by code_simp

lemma example_abs_difference:
  "both_numeric exact_ops (example_entries ! 0) \<and> abs_difference exact_ops (example_entries ! 0) = 5"
  by code_simp

theorem abs_error_only_when_both_numeric_witness:
  "py_float exact_ops (obj_get (example_entries ! 1) ''userGuessValue'') = Inl ValueError \<and>
   abs_error (build_item exact_ops example_quiz (example_entries ! 1)) = None \<and>
   abs_error (build_item exact_ops example_quiz (example_entries ! 0)) = Some 5"
proof -
  note bad = abs_error_only_when_both_numeric [of exact_ops example_quiz "example_entries ! 1"]
  note good = abs_error_only_when_both_numeric [of exact_ops example_quiz "example_entries ! 0"]
  have "abs_error (build_item exact_ops example_quiz (example_entries ! 1)) = None"
    using bad example_bad_guess by blast
  moreover have "abs_error (build_item exact_ops example_quiz (example_entries ! 0)) = Some 5"
    using good example_abs_difference by simp
  ultimately show ?thesis
    using example_bad_guess by blast
qed

lemma map_of_dict_set: "map_of (dict_set d k v) = (map_of d)(k \<mapsto> v)"
  by (induction d k v rule: dict_set.induct) (auto simp: fun_eq_iff)

lemma keys_dict_set: "fst ` set (dict_set d k v) = insert k (fst ` set d)"
  by (induction d k v rule: dict_set.induct) auto

lemma distinct_dict_set: "distinct (map fst d) \<Longrightarrow> distinct (map fst (dict_set d k v))"
  by (induction d k v rule: dict_set.induct) (auto simp: keys_dict_set)

lemma distinct_record_sources:
  "distinct (map fst d) \<Longrightarrow> distinct (map fst (record_sources d ss))"
  by (induction ss arbitrary: d) (simp_all add: distinct_dict_set)

lemma keys_record_sources: "fst ` set (record_sources d ss) = fst ` set d \<union> url ` set ss"
  by (induction ss arbitrary: d) (auto simp: keys_dict_set)

lemma map_of_record_sources:
  "map_of (record_sources d ss) u =
     (case last_with_url u ss of None \<Rightarrow> map_of d u | Some s \<Rightarrow> Some s)"
  by (induction ss arbitrary: d) (auto simp: map_of_dict_set split: option.splits)

lemma last_with_url_url: "last_with_url u ss = Some s \<Longrightarrow> url s = u"
  by (induction ss) (auto split: option.splits if_splits)

lemma all_sources_entry:
  assumes "(k, s) \<in> set (record_sources [] ss)"
  shows "last_with_url k ss = Some s \<and> url s = k"
proof -
  have "distinct (map fst (record_sources [] ss))"
    by (rule distinct_record_sources) simp
  with assms have "map_of (record_sources [] ss) k = Some s"
    by simp
  then have "last_with_url k ss = Some s"
    by (simp add: map_of_record_sources split: option.splits)
  then show ?thesis
    by (simp add: last_with_url_url)
qed

lemma all_sources_keys: "map (\<lambda>kv. url (snd kv)) (record_sources [] ss) = map fst (record_sources [] ss)"
  by (rule map_cong) (auto dest: all_sources_entry)

text \<open>
  C3. The candidate sources carry pairwise distinct URLs, namely the URLs of the sources
  the loop visited, so sources sharing a URL yield one entry; the entry for a URL takes
  its name from the last visited source with that URL, and is the URL itself when that
  source's name is \<open>None\<close> or empty.
\<close>

theorem candidate_sources_one_per_url:
  assumes "perceptions result = JList (map JObj kvss)"
  shows "\<exists>ctx. build_context_for_result fl result quiz_meta = Inr ctx \<and>
           distinct (map entry_url (candidate_sources ctx)) \<and>
           set (map entry_url (candidate_sources ctx)) =
             url ` set (visited_sources fl quiz_meta kvss) \<and>
           (\<forall>c \<in> set (candidate_sources ctx).
              \<exists>s. last_with_url (entry_url c) (visited_sources fl quiz_meta kvss) = Some s \<and>
                  entry_name c = (if truthy fl (name s) then name s else JStr (entry_url c)))"
proof -
  let ?vs = "visited_sources fl quiz_meta kvss"
  let ?d = "record_sources [] ?vs"
  let ?cs = "map (\<lambda>kv. source_dict fl (snd kv)) ?d"
  have urls: "map entry_url ?cs = map fst ?d"
    using all_sources_keys [of ?vs] by (simp add: source_dict_def comp_def)
  have dist: "distinct (map entry_url ?cs)"
    unfolding urls by (rule distinct_record_sources) simp
  have keys: "set (map entry_url ?cs) = url ` set ?vs"
    unfolding urls using keys_record_sources [of "[]" ?vs] by simp
  have names: "\<exists>s. last_with_url (entry_url c) ?vs = Some s \<and>
                  entry_name c = (if truthy fl (name s) then name s else JStr (entry_url c))"
    if "c \<in> set ?cs" for c
  proof -
    from that obtain k s where ks: "(k, s) \<in> set ?d" and c: "c = source_dict fl s"
      by auto
    from all_sources_entry [OF ks] have "last_with_url k ?vs = Some s" "url s = k"
      by simp_all
    then show ?thesis
      by (simp add: c source_dict_def py_or_def)
  qed
  show ?thesis
    using dist keys names by (simp add: build_context_objs [OF assms] del: set_map)
qed

lemma example_candidates:
  "map_sum id candidate_sources (build_context_for_result exact_ops example_result example_quiz) =
     Inr [\<lparr>entry_name = JStr ''Second'', entry_url = ''https://a''\<rparr>,
          \<lparr>entry_name = JStr ''https://b'', entry_url = ''https://b''\<rparr>]"
  by code_simp

theorem candidate_sources_one_per_url_witness:
  "perceptions example_result = JList (map JObj example_entries) \<and>
   (case build_context_for_result exact_ops example_result example_quiz of
      Inl e \<Rightarrow> False
    | Inr ctx \<Rightarrow>
        candidate_sources ctx =
          [\<lparr>entry_name = JStr ''Second'', entry_url = ''https://a''\<rparr>,
           \<lparr>entry_name = JStr ''https://b'', entry_url = ''https://b''\<rparr>] \<and>
        distinct (map entry_url (candidate_sources ctx)))"
proof -
  have p: "perceptions example_result = JList (map JObj example_entries)"
    by (simp add: example_result_def)
  from candidate_sources_one_per_url [OF p, of exact_ops example_quiz]
  obtain ctx where ctx: "build_context_for_result exact_ops example_result example_quiz = Inr ctx"
    and dist: "distinct (map entry_url (candidate_sources ctx))"
    by blast
  from example_candidates ctx
  have "candidate_sources ctx =
          [\<lparr>entry_name = JStr ''Second'', entry_url = ''https://a''\<rparr>,
           \<lparr>entry_name = JStr ''https://b'', entry_url = ''https://b''\<rparr>]"
    by simp
  with p ctx dist show ?thesis
    by simp
qed

text \<open>
  C10. An entry whose question id is not a key of the quiz mapping still yields the item
  at its position: the items are as many as the entries, and the item has category
  \<open>None\<close>, no sources, and as question text the stripped \<open>str\<close> of the entry's own
  \<open>questionText\<close>, or the empty string when that field is missing or falsy.
\<close>

theorem unmatched_perceptions_are_kept:
  assumes "perceptions result = JList (map JObj kvss)"
    and "i < length kvss"
    and "map_of quiz_meta (entry_qid fl (kvss ! i)) = None"
  shows "\<exists>ctx. build_context_for_result fl result quiz_meta = Inr ctx \<and>
           length (ctx_items ctx) = length kvss \<and>
           question_id (ctx_items ctx ! i) = entry_qid fl (kvss ! i) \<and>
           item_category (ctx_items ctx ! i) = JNull \<and>
           item_sources (ctx_items ctx ! i) = [] \<and>
           item_question (ctx_items ctx ! i) =
             py_strip (py_str fl (py_or fl (obj_get (kvss ! i) ''questionText'') (JStr [])))"
  using assms(2,3)
  by (simp add: build_context_objs [OF assms(1)] build_item_def Let_def meta_sources_def)

lemma example_unmatched:
  "map_of (take 1 example_quiz) (entry_qid exact_ops (example_entries ! 1)) = None"
  by code_simp

lemma example_unmatched_text:
  "py_strip (py_str exact_ops (py_or exact_ops (obj_get (example_entries ! 1) ''questionText'')
     (JStr []))) = ''How many?''"
  by code_simp

theorem unmatched_perceptions_are_kept_witness:
  "perceptions example_result = JList (map JObj example_entries) \<and>
   1 < length example_entries \<and>
   map_of (take 1 example_quiz) (entry_qid exact_ops (example_entries ! 1)) = None \<and>
   (case build_context_for_result exact_ops example_result (take 1 example_quiz) of
      Inl e \<Rightarrow> False
    | Inr ctx \<Rightarrow>
        length (ctx_items ctx) = 2 \<and>
        item_category (ctx_items ctx ! 1) = JNull \<and>
        item_sources (ctx_items ctx ! 1) = [] \<and>
        item_question (ctx_items ctx ! 1) = ''How many?'')"
proof -
  have p: "perceptions example_result = JList (map JObj example_entries)"
    by (simp add: example_result_def)
  have len: "length example_entries = 2"
    by (simp add: example_entries_def)
  then have i: "1 < length example_entries"
    by simp
  show ?thesis
    using unmatched_perceptions_are_kept [OF p i example_unmatched]
    by (auto simp: p len example_unmatched [unfolded One_nat_def]
        example_unmatched_text [unfolded One_nat_def])
qed

section \<open>Properties of the .env loader\<close>

lemma env_line_keeps: "env_line env raw = Inr env' \<Longrightarrow> env k = Some v \<Longrightarrow> env' k = Some v"
  by (auto simp: env_line_def environ_set_def Let_def split: if_splits)

lemma load_lines_keeps: "env k = Some v \<Longrightarrow> load_lines env raws k = Some v"
proof (induction raws arbitrary: env)
  case Nil
  then show ?case by simp
next
  case (Cons raw raws)
  show ?case
  proof (cases "env_line env raw")
    case (Inl e)
    then show ?thesis using Cons.prems by simp
  next
    case (Inr env')
    from Inr Cons.prems have "env' k = Some v" by (rule env_line_keeps)
    then show ?thesis using Inr by (simp add: Cons.IH)
  qed
qed

lemma strip_no_eq: "c \<notin> set raw \<Longrightarrow> c \<notin> set (py_strip raw)"
  by (auto simp: py_strip_def py_rstrip_def py_lstrip_def dest!: set_dropWhileD)

lemma lstrip_drop_no_eq: "c \<notin> set s \<Longrightarrow> c \<notin> set (py_lstrip (drop n s))"
  by (auto simp: py_lstrip_def dest!: set_dropWhileD in_set_dropD)

lemma env_line_malformed: "CHR ''='' \<notin> set raw \<Longrightarrow> env_line env raw = Inr env"
  using strip_no_eq [of "CHR ''=''" raw] lstrip_drop_no_eq [of "CHR ''=''" "py_strip raw" 7]
  by (simp add: env_line_def Let_def)

lemma load_lines_skip:
  "(\<And>e. env_line e raw = Inr e) \<Longrightarrow>
   load_lines env (pre @ raw # post) = load_lines env (pre @ post)"
  by (induction pre arbitrary: env) (simp_all split: sum.splits)

lemma split_acc_plain:
  "\<forall>c \<in> set raw. \<not> is_linebreak c \<Longrightarrow>
   split_acc cur (raw @ CHR 0x0A # rest) = (rev cur @ raw) # split_acc [] rest"
proof (induction raw arbitrary: cur)
  case Nil
  show ?case by (simp add: is_linebreak_def)
next
  case (Cons c raw)
  then have "\<not> is_linebreak c" by simp
  then have "c \<noteq> CHR 0x0D" by (auto simp: is_linebreak_def)
  with Cons \<open>\<not> is_linebreak c\<close> show ?case by simp
qed

lemma split_acc_prefix:
  "\<exists>ls. \<forall>rest. split_acc cur (a @ CHR 0x0A # rest) = ls @ split_acc [] rest"
proof (induction cur a rule: split_acc.induct)
  case (1 cur)
  have "\<forall>rest. split_acc cur ([] @ CHR 0x0A # rest) = [rev cur] @ split_acc [] rest"
    by (simp add: is_linebreak_def)
  then show ?case by blast
next
  case (2 cur c s)
  show ?case
  proof (cases "c = CHR 0x0D")
    case cr: True
    show ?thesis
    proof (cases s)
      case Nil
      have "\<forall>rest. split_acc cur ((c # s) @ CHR 0x0A # rest) = [rev cur] @ split_acc [] rest"
        by (simp add: cr Nil)
      then show ?thesis by blast
    next
      case (Cons d s')
      show ?thesis
      proof (cases "d = CHR 0x0A")
        case True
        from "2.IH"(1) [OF cr Cons True] obtain ls
          where "\<forall>rest. split_acc [] (s' @ CHR 0x0A # rest) = ls @ split_acc [] rest" by blast
        then have "\<forall>rest. split_acc cur ((c # s) @ CHR 0x0A # rest) = (rev cur # ls) @ split_acc [] rest"
          by (simp add: cr Cons True)
        then show ?thesis by blast
      next
        case False
        from "2.IH"(2) [OF cr Cons False] obtain ls
          where "\<forall>rest. split_acc [] (s @ CHR 0x0A # rest) = ls @ split_acc [] rest" by blast
        then have "\<forall>rest. split_acc cur ((c # s) @ CHR 0x0A # rest) = (rev cur # ls) @ split_acc [] rest"
          using False by (simp add: cr Cons)
        then show ?thesis by blast
      qed
    qed
  next
    case ncr: False
    show ?thesis
    proof (cases "is_linebreak c")
      case True
      from "2.IH"(3) [OF ncr True] obtain ls
        where "\<forall>rest. split_acc [] (s @ CHR 0x0A # rest) = ls @ split_acc [] rest" by blast
      then have "\<forall>rest. split_acc cur ((c # s) @ CHR 0x0A # rest) = (rev cur # ls) @ split_acc [] rest"
        using ncr True by simp
      then show ?thesis by blast
    next
      case False
      from "2.IH"(4) [OF ncr False] obtain ls
        where "\<forall>rest. split_acc (c # cur) (s @ CHR 0x0A # rest) = ls @ split_acc [] rest" by blast
      then have "\<forall>rest. split_acc cur ((c # s) @ CHR 0x0A # rest) = ls @ split_acc [] rest"
        using ncr False by simp
      then show ?thesis by blast
    qed
  qed
qed

lemma load_env_file_skip:
  assumes "CHR ''='' \<notin> set raw" and "\<forall>c \<in> set raw. \<not> is_linebreak c"
  shows "load_env_file env (Some (a @ CHR 0x0A # raw @ CHR 0x0A # b)) =
         load_env_file env (Some (a @ CHR 0x0A # b))"
proof -
  obtain ls where ls: "\<And>rest. split_acc [] (a @ CHR 0x0A # rest) = ls @ split_acc [] rest"
    using split_acc_prefix [of "[]" a] by blast
  have "splitlines (a @ CHR 0x0A # raw @ CHR 0x0A # b) = ls @ raw # split_acc [] b"
    by (simp add: splitlines_def ls split_acc_plain [OF assms(2)])
  moreover have "splitlines (a @ CHR 0x0A # b) = ls @ split_acc [] b"
    by (simp add: splitlines_def ls)
  ultimately show ?thesis
    using load_lines_skip [of raw env ls "split_acc [] b"] env_line_malformed [OF assms(1)]
    by (simp add: load_env_file_def)
qed

text \<open>
  C7. A variable that is set before the call has the same value after it, whatever the
  file holds. A line without \<open>=\<close> leaves the environment as it is and raises nothing:
  the lines before and after it are processed as if it were not there, and a file with
  such a line loads to the same environment as the file without it.
\<close>

theorem load_env_file_keeps_preset_variables:
  "(env k = Some v \<longrightarrow> load_env_file env file k = Some v) \<and>
   (CHR ''='' \<notin> set raw \<longrightarrow>
      env_line env raw = Inr env \<and>
      load_lines env (pre @ raw # post) = load_lines env (pre @ post)) \<and>
   (CHR ''='' \<notin> set raw \<and> (\<forall>c \<in> set raw. \<not> is_linebreak c) \<longrightarrow>
      load_env_file env (Some (a @ CHR 0x0A # raw @ CHR 0x0A # b)) =
      load_env_file env (Some (a @ CHR 0x0A # b)))"
proof (intro conjI impI)
  assume "env k = Some v"
  then show "load_env_file env file k = Some v"
    by (cases "file") (simp_all add: load_env_file_def load_lines_keeps)
next
  assume "CHR ''='' \<notin> set raw"
  then show "env_line env raw = Inr env"
    by (rule env_line_malformed)
next
  assume "CHR ''='' \<notin> set raw"
  then have "\<And>e. env_line e raw = Inr e"
    by (rule env_line_malformed)
  then show "load_lines env (pre @ raw # post) = load_lines env (pre @ post)"
    by (rule load_lines_skip)
next
  assume "CHR ''='' \<notin> set raw \<and> (\<forall>c \<in> set raw. \<not> is_linebreak c)"
  then show "load_env_file env (Some (a @ CHR 0x0A # raw @ CHR 0x0A # b)) =
             load_env_file env (Some (a @ CHR 0x0A # b))"
    by (simp add: load_env_file_skip)
qed

lemma example_env_loaded:
  "load_env_file example_environ
     (Some (example_env_head @ CHR 0x0A # example_env_bad @ CHR 0x0A # example_env_tail))
     ''OTHER'' = Some ''abc'' \<and>
   load_env_file Map.empty
     (Some (example_env_head @ CHR 0x0A # example_env_bad @ CHR 0x0A # example_env_tail))
     ''PPLX_API_KEY'' = Some ''fromfile''"
  by code_simp

lemma example_env_bad_line:
  "CHR ''='' \<notin> set example_env_bad \<and> (\<forall>c \<in> set example_env_bad. \<not> is_linebreak c)"
  by code_simp

theorem load_env_file_keeps_preset_variables_witness:
  "example_environ ''PPLX_API_KEY'' = Some ''preset'' \<and>
   load_env_file example_environ
     (Some (example_env_head @ CHR 0x0A # example_env_bad @ CHR 0x0A # example_env_tail))
     ''PPLX_API_KEY'' = Some ''preset'' \<and>
   load_env_file example_environ
     (Some (example_env_head @ CHR 0x0A # example_env_bad @ CHR 0x0A # example_env_tail))
     ''OTHER'' = Some ''abc'' \<and>
   load_env_file Map.empty
     (Some (example_env_head @ CHR 0x0A # example_env_bad @ CHR 0x0A # example_env_tail))
     ''PPLX_API_KEY'' = Some ''fromfile'' \<and>
   load_env_file example_environ
     (Some (example_env_head @ CHR 0x0A # example_env_bad @ CHR 0x0A # example_env_tail)) =
   load_env_file example_environ (Some (example_env_head @ CHR 0x0A # example_env_tail))"
proof -
  have preset: "example_environ ''PPLX_API_KEY'' = Some ''preset''"
    by (simp add: example_environ_def)
  note frame = load_env_file_keeps_preset_variables
    [of example_environ "''PPLX_API_KEY''" "''preset''"
        "Some (example_env_head @ CHR 0x0A # example_env_bad @ CHR 0x0A # example_env_tail)"
        example_env_bad "[]" "[]" example_env_head example_env_tail]
  from frame preset have kept:
    "load_env_file example_environ
       (Some (example_env_head @ CHR 0x0A # example_env_bad @ CHR 0x0A # example_env_tail))
       ''PPLX_API_KEY'' = Some ''preset''"
    by blast
  from frame example_env_bad_line have skipped:
    "load_env_file example_environ
       (Some (example_env_head @ CHR 0x0A # example_env_bad @ CHR 0x0A # example_env_tail)) =
     load_env_file example_environ (Some (example_env_head @ CHR 0x0A # example_env_tail))"
    by blast
  from preset kept skipped example_env_loaded show ?thesis
    by blast
qed

section \<open>Properties of the trends tool\<close>

lemma rss_calls_print_rss: "rss_calls (print_rss args rss) = 0"
  by (simp add: print_rss_def rss_calls_def)

lemma realtime_calls_print_rss: "realtime_calls (print_rss args rss) = 0"
  by (simp add: print_rss_def realtime_calls_def)

lemma rss_calls_append: "rss_calls (xs @ ys) = rss_calls xs + rss_calls ys"
  by (simp add: rss_calls_def)

lemma realtime_calls_append: "realtime_calls (xs @ ys) = realtime_calls xs + realtime_calls ys"
  by (simp add: realtime_calls_def)

lemma rss_calls_Cons:
  "rss_calls (e # tr) = (case e of Call_rss \<Rightarrow> 1 | _ \<Rightarrow> 0) + rss_calls tr"
  by (simp add: rss_calls_def split: event.splits)

lemma realtime_calls_Cons:
  "realtime_calls (e # tr) = (case e of Call_realtime n \<Rightarrow> 1 | _ \<Rightarrow> 0) + realtime_calls tr"
  by (simp add: realtime_calls_def split: event.splits)

lemma calls_Nil: "rss_calls [] = 0" "realtime_calls [] = 0"
  by (simp_all add: rss_calls_def realtime_calls_def)

lemma realtime_default: "realtime (default_source args) = realtime_in_effect args"
  by (auto simp: default_source_def realtime_in_effect_def)

lemma other_args_default:
  "include_rss (default_source args) = include_rss args \<and>
   max_results (default_source args) = max_results args"
  by (simp add: default_source_def)

lemma rss_block_default: "rss_block (default_source args) rss = rss_block args rss"
  by (simp add: rss_block_def print_rss_def other_args_default)

lemma print_rss_default: "print_rss (default_source args) rss = print_rss args rss"
  by (simp add: print_rss_def other_args_default)

text \<open>
  C9. With the realtime source in effect and an error result from the realtime fetch,
  the tool prints the error and calls the RSS fetcher once as a fallback, whose result it
  prints without a further attempt; with a successful realtime fetch it prints the items
  and makes no fallback call. In every run the realtime fetcher is called at most once,
  and the RSS fetcher once for the fallback and once more only under \<open>--include-rss\<close>.
\<close>

theorem realtime_error_falls_back_to_rss_once:
  "(realtime_in_effect args \<and> rt = Failed msg \<and> msg \<noteq> [] \<longrightarrow>
      trend_sources args rt rss_fallback rss_requested =
        [Print (CHR 0x0A # ''GB Realtime Trending (web UI API):''),
         Call_realtime (max_results args),
         Print msg,
         Print ''Falling back to GB Daily RSS...'',
         Call_rss] @ print_rss args rss_fallback @ rss_block args rss_requested) \<and>
   (realtime_in_effect args \<and> rt = Fetched xs \<longrightarrow>
      trend_sources args rt rss_fallback rss_requested =
        [Print (CHR 0x0A # ''GB Realtime Trending (web UI API):''),
         Call_realtime (max_results args),
         Print_realtime_items xs] @ rss_block args rss_requested) \<and>
   rss_calls (trend_sources args rt rss_fallback rss_requested) =
     (if realtime_in_effect args \<and> get_error rt \<noteq> [] then 1 else 0) +
     (if include_rss args then 1 else 0) \<and>
   realtime_calls (trend_sources args rt rss_fallback rss_requested) =
     (if realtime_in_effect args then 1 else 0)"
proof (intro conjI impI)
  assume "realtime_in_effect args \<and> rt = Failed msg \<and> msg \<noteq> []"
  then show "trend_sources args rt rss_fallback rss_requested =
        [Print (CHR 0x0A # ''GB Realtime Trending (web UI API):''),
         Call_realtime (max_results args),
         Print msg,
         Print ''Falling back to GB Daily RSS...'',
         Call_rss] @ print_rss args rss_fallback @ rss_block args rss_requested"
    by (simp add: trend_sources_def Let_def realtime_block_def realtime_default
        rss_block_default print_rss_default other_args_default)
next
  assume "realtime_in_effect args \<and> rt = Fetched xs"
  then show "trend_sources args rt rss_fallback rss_requested =
        [Print (CHR 0x0A # ''GB Realtime Trending (web UI API):''),
         Call_realtime (max_results args),
         Print_realtime_items xs] @ rss_block args rss_requested"
    by (simp add: trend_sources_def Let_def realtime_block_def realtime_default
        rss_block_default other_args_default)
next
  have block: "rss_calls (rss_block args rss_requested :: ('a, 'b) event list) =
                 (if include_rss args then 1 else 0)"
    by (simp add: rss_block_def rss_calls_Cons rss_calls_print_rss calls_Nil)
  have rt_block:
    "rss_calls (realtime_block (default_source args) rt rss_fallback :: ('a, 'b) event list) =
       (if realtime_in_effect args \<and> get_error rt \<noteq> [] then 1 else 0)"
    by (simp add: realtime_block_def realtime_default rss_calls_Cons rss_calls_print_rss calls_Nil)
  show "rss_calls (trend_sources args rt rss_fallback rss_requested) =
     (if realtime_in_effect args \<and> get_error rt \<noteq> [] then 1 else 0) +
     (if include_rss args then 1 else 0)"
    by (simp only: trend_sources_def Let_def rss_calls_append rss_block_default block rt_block)
next
  have block: "realtime_calls (rss_block args rss_requested :: ('a, 'b) event list) = 0"
    by (simp add: rss_block_def realtime_calls_Cons realtime_calls_print_rss calls_Nil)
  have rt_block:
    "realtime_calls (realtime_block (default_source args) rt rss_fallback :: ('a, 'b) event list) =
       (if realtime_in_effect args then 1 else 0)"
    by (simp add: realtime_block_def realtime_default realtime_calls_Cons
        realtime_calls_print_rss calls_Nil)
  show "realtime_calls (trend_sources args rt rss_fallback rss_requested) =
     (if realtime_in_effect args then 1 else 0)"
    by (simp only: trend_sources_def Let_def realtime_calls_append rss_block_default block rt_block)
qed

theorem realtime_error_falls_back_to_rss_once_witness:
  "realtime_in_effect example_args \<and>
   trend_sources example_args example_failure
       (Fetched [''a'', ''b'', ''c'']) (Failed ''unused'') =
     [Print (CHR 0x0A # ''GB Realtime Trending (web UI API):''),
      Call_realtime 2,
      Print ''Failed to fetch realtime trends: timed out'',
      Print ''Falling back to GB Daily RSS...'',
      Call_rss,
      Print_rss_items [''a'', ''b'']] \<and>
   trend_sources example_args (Fetched [''x'', ''y'']) (Fetched [''a'', ''b'', ''c''])
       (Failed ''unused'') =
     [Print (CHR 0x0A # ''GB Realtime Trending (web UI API):''),
      Call_realtime 2,
      (Print_realtime_items [''x'', ''y''] :: (string, string) event)]"
proof -
  have failure: "example_failure = Failed ''Failed to fetch realtime trends: timed out''"
    by (simp add: example_failure_def)
  have eff: "realtime_in_effect example_args"
    by (simp add: realtime_in_effect_def example_args_def)
  note fb = realtime_error_falls_back_to_rss_once
    [of example_args example_failure
        "''Failed to fetch realtime trends: timed out''"
        "Fetched [''a'', ''b'', ''c'']" "Failed ''unused''"]
  note ok = realtime_error_falls_back_to_rss_once
    [of example_args "Fetched [''x'', ''y'']" "[]" "Fetched [''a'', ''b'', ''c'']"
        "Failed ''unused''" "[''x'', ''y'']"]
  have rest: "print_rss example_args (Fetched [''a'', ''b'', ''c'']) =
                [Print_rss_items [''a'', ''b'']]"
             "rss_block example_args (Failed ''unused'') = []"
    by (simp_all add: print_rss_def rss_block_def example_args_def slice_to_def)
  have max2: "max_results example_args = 2"
    by (simp add: example_args_def)
  from eff fb failure
  have "trend_sources example_args example_failure
       (Fetched [''a'', ''b'', ''c'']) (Failed ''unused'') =
     [Print (CHR 0x0A # ''GB Realtime Trending (web UI API):''),
      Call_realtime 2,
      Print ''Failed to fetch realtime trends: timed out'',
      Print ''Falling back to GB Daily RSS...'',
      Call_rss,
      Print_rss_items [''a'', ''b'']]"
    by (simp add: rest max2)
  moreover from eff ok
  have "trend_sources example_args (Fetched [''x'', ''y'']) (Fetched [''a'', ''b'', ''c''])
       (Failed ''unused'') =
     [Print (CHR 0x0A # ''GB Realtime Trending (web UI API):''),
      Call_realtime 2,
      (Print_realtime_items [''x'', ''y''] :: (string, string) event)]"
    by (simp add: rest max2)
  ultimately show ?thesis
    using eff by blast
qed

section \<open>Properties of the loaders\<close>

lemma quizzes_loop_append:
  "quizzes_loop fl loads pre acc = Inr acc' \<Longrightarrow>
   quizzes_loop fl loads (pre @ rest) acc = quizzes_loop fl loads rest acc'"
  by (induction pre arbitrary: acc) (auto simp: Let_def split: if_splits sum.splits)

lemma decode_cell_fails:
  "loads s = Inl (JSONDecodeError m d p) \<Longrightarrow> decode_cell loads s = loads (collapse_quotes s)"
  by (simp add: decode_cell_def)

lemma results_loop_decoding:
  "\<forall>r \<in> set rows. r \<noteq> [] \<longrightarrow> cell_decodes loads r \<Longrightarrow>
   results_loop loads rows acc = Inr (acc @ map (record_of_row loads) (filter has_result_id rows))"
proof (induction rows arbitrary: acc)
  case Nil
  show ?case by simp
next
  case (Cons r rows)
  then have IH: "\<And>acc. results_loop loads rows acc =
      Inr (acc @ map (record_of_row loads) (filter has_result_id rows))"
    by simp
  show ?case
  proof (cases "r = []")
    case True
    then have "\<not> has_result_id r" by (simp add: has_result_id_def)
    with True show ?thesis by (simp add: IH)
  next
    case False
    then have hr: "has_result_id r \<longleftrightarrow> py_strip (cell r ''Result ID'') \<noteq> []"
      by (simp add: has_result_id_def)
    from False Cons.prems have dec: "cell_decodes loads r" by simp
    have "\<exists>v. (if py_strip (cell r ''Perceptions JSON'') \<noteq> []
               then decode_cell loads (py_strip (cell r ''Perceptions JSON''))
               else Inr (JList [])) = Inr v \<and> record_of_row loads r = norm_row r v"
      using dec by (auto simp: cell_decodes_def record_of_row_def split: sum.splits)
    then obtain v where v: "(if py_strip (cell r ''Perceptions JSON'') \<noteq> []
               then decode_cell loads (py_strip (cell r ''Perceptions JSON''))
               else Inr (JList [])) = Inr v" and rec: "record_of_row loads r = norm_row r v"
      by blast
    have rid: "result_id (norm_row r v) = py_strip (cell r ''Result ID'')"
      by (simp add: norm_row_def)
    show ?thesis
    proof (cases "has_result_id r")
      case True
      with hr have "py_strip (cell r ''Result ID'') \<noteq> []" by simp
      then show ?thesis
        using False True by (simp add: Let_def v rid IH rec)
    next
      case nh: False
      with hr have "py_strip (cell r ''Result ID'') = []" by simp
      then show ?thesis
        using False nh by (simp add: Let_def v rid IH)
    qed
  qed
qed

lemma quizzes_loop_append_error:
  "quizzes_loop fl loads pre acc = Inl e \<Longrightarrow> quizzes_loop fl loads (pre @ rest) acc = Inl e"
  by (induction pre arbitrary: acc) (auto simp: Let_def split: if_splits sum.splits)

lemma quizzes_loop_skip:
  "py_strip (cell r ''Quiz Link ID'') = [] \<or> py_strip (cell r ''Questions JSON'') = [] \<Longrightarrow>
   quizzes_loop fl loads (r # rows) acc = quizzes_loop fl loads rows acc"
  by (auto simp: Let_def)

lemma quizzes_loop_failing_row:
  assumes "r \<noteq> []"
    and "py_strip (cell r ''Quiz Link ID'') \<noteq> []"
    and "py_strip (cell r ''Questions JSON'') \<noteq> []"
    and "loads (py_strip (cell r ''Questions JSON'')) = Inl (JSONDecodeError m d p)"
    and "loads (collapse_quotes (py_strip (cell r ''Questions JSON''))) = Inl e"
  shows "quizzes_loop fl loads (r # rows) acc = Inl e"
proof -
  have "decode_cell loads (py_strip (cell r ''Questions JSON'')) = Inl e"
    using assms(4,5) by (simp add: decode_cell_fails)
  then show ?thesis
    using assms(1,2,3) by (simp add: Let_def)
qed

text \<open>
  C5, as amended. When a row has a quiz id and a non-empty questions cell, the strict
  decode of the cell raises a decode error and the decode of the collapsed text raises
  too, \<open>load_quizzes\<close> fails on every input that holds the row; when the rows before it
  load, it raises what that second call raised, the decoder's own exception, which
  leaves the loader unchanged. A row whose stripped quiz id or questions cell is empty
  is skipped before any decode: whatever the decoder is, the loader returns what it
  returns on the input without the row.
\<close>

theorem load_quizzes_decode_error_propagates:
  "(r \<noteq> [] \<and>
    py_strip (cell r ''Quiz Link ID'') \<noteq> [] \<and>
    py_strip (cell r ''Questions JSON'') \<noteq> [] \<and>
    loads (py_strip (cell r ''Questions JSON'')) = Inl (JSONDecodeError m d p) \<and>
    loads (collapse_quotes (py_strip (cell r ''Questions JSON''))) = Inl e \<longrightarrow>
      (\<exists>e'. load_quizzes fl loads (pre @ r # post) = Inl e') \<and>
      (\<forall>quizzes. load_quizzes fl loads pre = Inr quizzes \<longrightarrow>
         load_quizzes fl loads (pre @ r # post) = Inl e)) \<and>
   (py_strip (cell r ''Quiz Link ID'') = [] \<or> py_strip (cell r ''Questions JSON'') = [] \<longrightarrow>
      load_quizzes fl loads (pre @ r # post) = load_quizzes fl loads (pre @ post))"
proof (intro conjI impI allI)
  assume bad: "r \<noteq> [] \<and>
    py_strip (cell r ''Quiz Link ID'') \<noteq> [] \<and>
    py_strip (cell r ''Questions JSON'') \<noteq> [] \<and>
    loads (py_strip (cell r ''Questions JSON'')) = Inl (JSONDecodeError m d p) \<and>
    loads (collapse_quotes (py_strip (cell r ''Questions JSON''))) = Inl e"
  then have row: "quizzes_loop fl loads (r # post) acc = Inl e" for acc
    by (intro quizzes_loop_failing_row) simp_all
  show "\<exists>e'. load_quizzes fl loads (pre @ r # post) = Inl e'"
  proof (cases "quizzes_loop fl loads pre []")
    case (Inl e')
    then have "quizzes_loop fl loads (pre @ r # post) [] = Inl e'"
      by (rule quizzes_loop_append_error)
    then show ?thesis by (simp add: load_quizzes_def)
  next
    case (Inr acc')
    then have "quizzes_loop fl loads (pre @ r # post) [] = quizzes_loop fl loads (r # post) acc'"
      by (rule quizzes_loop_append)
    with row show ?thesis by (simp add: load_quizzes_def)
  qed
  fix quizzes
  assume "load_quizzes fl loads pre = Inr quizzes"
  then have "quizzes_loop fl loads (pre @ r # post) [] = quizzes_loop fl loads (r # post) quizzes"
    unfolding load_quizzes_def by (rule quizzes_loop_append)
  with row show "load_quizzes fl loads (pre @ r # post) = Inl e"
    by (simp add: load_quizzes_def)
next
  assume skip: "py_strip (cell r ''Quiz Link ID'') = [] \<or> py_strip (cell r ''Questions JSON'') = []"
  show "load_quizzes fl loads (pre @ r # post) = load_quizzes fl loads (pre @ post)"
  proof (cases "quizzes_loop fl loads pre []")
    case (Inl e')
    then show ?thesis
      by (simp add: load_quizzes_def quizzes_loop_append_error)
  next
    case (Inr acc')
    then have eq: "quizzes_loop fl loads (pre @ r # post) [] = quizzes_loop fl loads (r # post) acc'"
      "quizzes_loop fl loads (pre @ post) [] = quizzes_loop fl loads post acc'"
      by (rule quizzes_loop_append)+
    have "quizzes_loop fl loads (r # post) acc' = quizzes_loop fl loads post acc'"
      using skip by (rule quizzes_loop_skip)
    then show ?thesis
      by (simp only: load_quizzes_def eq)
  qed
qed

lemma example_quiz_rows:
  "bad_quiz_row \<noteq> [] \<and>
   py_strip (cell bad_quiz_row ''Quiz Link ID'') \<noteq> [] \<and>
   py_strip (cell bad_quiz_row ''Questions JSON'') \<noteq> [] \<and>
   example_loads (py_strip (cell bad_quiz_row ''Questions JSON'')) =
     Inl (JSONDecodeError ''Expecting value'' ''x'' 0) \<and>
   example_loads (collapse_quotes (py_strip (cell bad_quiz_row ''Questions JSON''))) =
     Inl (JSONDecodeError ''Expecting value'' ''x'' 0)"
  by code_simp

lemma example_skipped_rows:
  "py_strip (cell unnamed_bad_quiz_row ''Quiz Link ID'') = []"
  "py_strip (cell blank_cell_quiz_row ''Questions JSON'') = []"
  "example_loads [] = Inl (JSONDecodeError ''Expecting value'' [] 0)"
  "load_quizzes exact_ops example_loads [good_quiz_row] = Inr [(''quiz1'', [])]"
  "load_quizzes exact_ops example_loads ([good_quiz_row] @ [good_quiz_row]) = Inr [(''quiz1'', [])]"
  by code_simp+

theorem load_quizzes_decode_error_propagates_witness:
  "load_quizzes exact_ops example_loads [good_quiz_row] = Inr [(''quiz1'', [])] \<and>
   example_loads (py_strip (cell bad_quiz_row ''Questions JSON'')) =
     Inl (JSONDecodeError ''Expecting value'' ''x'' 0) \<and>
   load_quizzes exact_ops example_loads ([good_quiz_row] @ bad_quiz_row # [good_quiz_row]) =
     Inl (JSONDecodeError ''Expecting value'' ''x'' 0) \<and>
   py_strip (cell unnamed_bad_quiz_row ''Quiz Link ID'') = [] \<and>
   load_quizzes exact_ops example_loads ([good_quiz_row] @ unnamed_bad_quiz_row # [good_quiz_row]) =
     Inr [(''quiz1'', [])] \<and>
   py_strip (cell blank_cell_quiz_row ''Questions JSON'') = [] \<and>
   example_loads [] = Inl (JSONDecodeError ''Expecting value'' [] 0) \<and>
   load_quizzes exact_ops example_loads ([good_quiz_row] @ blank_cell_quiz_row # [good_quiz_row]) =
     Inr [(''quiz1'', [])]"
proof -
  note fails = load_quizzes_decode_error_propagates
    [of bad_quiz_row example_loads "''Expecting value''" "''x''" 0
        "JSONDecodeError ''Expecting value'' ''x'' 0" exact_ops "[good_quiz_row]" "[good_quiz_row]",
     THEN conjunct1]
  note skip_id = load_quizzes_decode_error_propagates
    [of unnamed_bad_quiz_row example_loads _ _ _ _ exact_ops "[good_quiz_row]" "[good_quiz_row]",
     THEN conjunct2]
  note skip_cell = load_quizzes_decode_error_propagates
    [of blank_cell_quiz_row example_loads _ _ _ _ exact_ops "[good_quiz_row]" "[good_quiz_row]",
     THEN conjunct2]
  have a: "load_quizzes exact_ops example_loads ([good_quiz_row] @ bad_quiz_row # [good_quiz_row]) =
     Inl (JSONDecodeError ''Expecting value'' ''x'' 0)"
    using fails example_quiz_rows example_skipped_rows(4) by blast
  have b: "load_quizzes exact_ops example_loads
             ([good_quiz_row] @ unnamed_bad_quiz_row # [good_quiz_row]) = Inr [(''quiz1'', [])]"
    using skip_id example_skipped_rows(1,5) by simp
  have c: "load_quizzes exact_ops example_loads
             ([good_quiz_row] @ blank_cell_quiz_row # [good_quiz_row]) = Inr [(''quiz1'', [])]"
    using skip_cell example_skipped_rows(2,5) by simp
  from a b c example_quiz_rows example_skipped_rows(1-4) show ?thesis
    by (intro conjI) simp_all
qed

text \<open>
  C5 as it is stated fails: a row whose questions cell fails both decodes is skipped
  without an error when its quiz id is empty, and the error of a failing row is the same
  value wherever the row stands, with the decoder's message, the cell text and a
  position in that text, and no row or column name.
\<close>

theorem load_quizzes_decode_error_counterexample:
  "example_loads (py_strip (cell unnamed_bad_quiz_row ''Questions JSON'')) =
     Inl (JSONDecodeError ''Expecting value'' ''x'' 0) \<and>
   example_loads (collapse_quotes (py_strip (cell unnamed_bad_quiz_row ''Questions JSON''))) =
     Inl (JSONDecodeError ''Expecting value'' ''x'' 0) \<and>
   load_quizzes exact_ops example_loads [unnamed_bad_quiz_row, good_quiz_row] =
     Inr [(''quiz1'', [])] \<and>
   load_quizzes exact_ops example_loads [bad_quiz_row] =
     Inl (JSONDecodeError ''Expecting value'' ''x'' 0) \<and>
   load_quizzes exact_ops example_loads [good_quiz_row, bad_quiz_row] =
     Inl (JSONDecodeError ''Expecting value'' ''x'' 0)"
  by code_simp

text \<open>
  C6, as amended. When the perceptions cell of every row is empty or decodes,
  \<open>load_results\<close> returns, in the order of the rows, the record of each row whose
  stripped result id is not empty, and no record for the other rows; the perceptions of
  a record are the empty list when the cell is empty or absent.
\<close>

theorem load_results_one_record_per_result_id:
  assumes "\<forall>r \<in> set rows. r \<noteq> [] \<longrightarrow> cell_decodes loads r"
  shows "load_results loads rows = Inr (map (record_of_row loads) (filter has_result_id rows)) \<and>
         (\<forall>r \<in> set rows. py_strip (cell r ''Perceptions JSON'') = [] \<longrightarrow>
            perceptions (record_of_row loads r) = JList [])"
  using results_loop_decoding [OF assms, of "[]"]
  by (simp add: load_results_def record_of_row_def norm_row_def)

lemma example_rows_decode:
  "list_all (\<lambda>r. r \<noteq> [] \<longrightarrow> cell_decodes example_loads r) example_result_rows"
  by code_simp

lemma example_rows_records:
  "map (record_of_row example_loads) (filter has_result_id example_result_rows) =
     [\<lparr>result_id = ''r1'', session_id = ''s1'', quiz_link_id = [], pki_score = None,
       created_at = [], perceptions = JList []\<rparr>,
      \<lparr>result_id = ''r3'', session_id = ''s3'', quiz_link_id = [], pki_score = None,
       created_at = [], perceptions = JList []\<rparr>]"
  by code_simp

theorem load_results_one_record_per_result_id_witness:
  "list_all (\<lambda>r. r \<noteq> [] \<longrightarrow> cell_decodes example_loads r) example_result_rows \<and>
   load_results example_loads example_result_rows =
     Inr [\<lparr>result_id = ''r1'', session_id = ''s1'', quiz_link_id = [], pki_score = None,
           created_at = [], perceptions = JList []\<rparr>,
          \<lparr>result_id = ''r3'', session_id = ''s3'', quiz_link_id = [], pki_score = None,
           created_at = [], perceptions = JList []\<rparr>]"
proof -
  have dec: "\<forall>r \<in> set example_result_rows. r \<noteq> [] \<longrightarrow> cell_decodes example_loads r"
    using example_rows_decode by (simp add: list_all_iff)
  from load_results_one_record_per_result_id [OF dec] example_rows_records example_rows_decode
  show ?thesis
    by simp
qed

text \<open>
  C6 as it is stated fails: a row with a result id whose perceptions cell decodes in
  neither attempt makes \<open>load_results\<close> raise, and no record is produced.
\<close>

theorem load_results_counterexample:
  "has_result_id bad_result_row \<and>
   load_results example_loads (example_result_rows @ [bad_result_row]) =
     Inl (JSONDecodeError ''Expecting value'' ''x'' 0)"
  by code_simp


section \<open>Properties of the prompt composer\<close>

lemma is_digit_digit_char: "d < 10 \<Longrightarrow> is_digit (digit_char d)"
  by (simp add: is_digit_def digit_char_def)

lemma digit_char_not_zero: "0 < d \<Longrightarrow> d < 10 \<Longrightarrow> digit_char d \<noteq> CHR ''0''"
proof
  assume d: "0 < d" "d < 10" and eq: "digit_char d = CHR ''0''"
  from d have "(of_char (digit_char d) :: nat) = 48 + d"
    by (simp add: digit_char_def)
  with eq d show False by simp
qed

lemma digits_nonempty: "digits n \<noteq> []"
  by (subst digits.simps) simp

lemma digits_all: "list_all is_digit (digits n)"
proof (induction n rule: digits.induct)
  case (1 n)
  show ?case
  proof (cases "n < 10")
    case True
    then show ?thesis by (subst digits.simps) (simp add: is_digit_digit_char)
  next
    case False
    with 1 have "list_all is_digit (digits (n div 10))" by simp
    moreover have "is_digit (digit_char (n mod 10))" by (simp add: is_digit_digit_char)
    ultimately show ?thesis using False by (subst digits.simps) simp
  qed
qed

lemma digits_hd: "0 < n \<Longrightarrow> hd (digits n) \<noteq> CHR ''0''"
proof (induction n rule: digits.induct)
  case (1 n)
  show ?case
  proof (cases "n < 10")
    case True
    with "1.prems" show ?thesis by (subst digits.simps) (simp add: digit_char_not_zero)
  next
    case False
    then have "0 < n div 10" by simp
    with 1 False have "hd (digits (n div 10)) \<noteq> CHR ''0''" by simp
    then show ?thesis using False by (subst digits.simps) (simp add: digits_nonempty)
  qed
qed

lemma digits_single: "n < 10 \<Longrightarrow> length (digits n) = 1"
  by (subst digits.simps) simp

lemma json_int_digits: "json_int (digits n)"
proof -
  have not_minus: "hd (digits n) \<noteq> CHR ''-''"
    using digits_all [of n] digits_nonempty [of n]
    by (cases "digits n") (auto simp: is_digit_def)
  have "1 < length (digits n) \<longrightarrow> hd (digits n) \<noteq> CHR ''0''"
    using digits_single [of n] digits_hd [of n] by (cases "n < 10") auto
  then show ?thesis
    using not_minus digits_all [of n] digits_nonempty [of n]
    by (cases "digits n") (auto simp: json_int_def digit_run_def)
qed

lemma json_int_str_int: "json_int (str_int i)"
proof (cases "i < 0")
  case True
  have "1 < length (digits (nat (- i))) \<longrightarrow> hd (digits (nat (- i))) \<noteq> CHR ''0''"
    using digits_single [of "nat (- i)"] digits_hd [of "nat (- i)"] by (cases "nat (- i) < 10") auto
  then show ?thesis
    using True digits_all [of "nat (- i)"] digits_nonempty [of "nat (- i)"]
    by (simp add: str_int_def json_int_def digit_run_def)
next
  case False
  then show ?thesis by (simp add: str_int_def json_int_digits)
qed

lemma str_int_chars: "c \<in> set (str_int i) \<Longrightarrow> is_digit c \<or> c = CHR ''-''"
  using digits_all by (auto simp: str_int_def list_all_iff split: if_splits)

lemma json_number_str_int: "json_number (str_int i)"
proof -
  have nc: "\<forall>c \<in> set (str_int i). c \<noteq> CHR ''e'' \<and> c \<noteq> CHR ''E'' \<and> c \<noteq> CHR ''.''"
    by (auto dest!: str_int_chars simp: is_digit_def)
  then have tw: "takeWhile (\<lambda>c. c \<noteq> CHR ''e'' \<and> c \<noteq> CHR ''E'') (str_int i) = str_int i"
    "dropWhile (\<lambda>c. c \<noteq> CHR ''e'' \<and> c \<noteq> CHR ''E'') (str_int i) = []"
    "takeWhile (\<lambda>c. c \<noteq> CHR ''.'') (str_int i) = str_int i"
    "dropWhile (\<lambda>c. c \<noteq> CHR ''.'') (str_int i) = []"
    by (simp_all add: takeWhile_eq_all_conv)
  show ?thesis
    using nc by (simp add: json_number_def Let_def tw json_int_str_int json_exp_def)
qed

lemma hex_val_hex_char: "d < 16 \<Longrightarrow> hex_val (hex_char d) = Some d"
  by (auto simp: hex_val_def hex_char_def Let_def)

lemma string_chars_escape:
  assumes t: "string_chars t s"
  shows "string_chars (json_escape c @ t) (c # s)"
proof -
  have simple: "string_chars (json_escape c @ t) (c # s)"
    if "json_escape c = [CHR 0x5C, e]" "unescape e = Some c" for e
    using that t by (simp add: chars_escape)
  show ?thesis
  proof (cases "c \<in> {CHR 0x22, CHR 0x5C, CHR 0x0A, CHR 0x0D, CHR 0x09, CHR 0x08, CHR 0x0C}")
    case True
    then consider "c = CHR 0x22" | "c = CHR 0x5C" | "c = CHR 0x0A" | "c = CHR 0x0D"
      | "c = CHR 0x09" | "c = CHR 0x08" | "c = CHR 0x0C"
      by auto
    then show ?thesis
    proof cases
      case 1
      show ?thesis by (rule simple [of "CHR 0x22"]) (simp_all add: 1 json_escape_def unescape_def)
    next
      case 2
      show ?thesis by (rule simple [of "CHR 0x5C"]) (simp_all add: 2 json_escape_def unescape_def)
    next
      case 3
      show ?thesis by (rule simple [of "CHR ''n''"]) (simp_all add: 3 json_escape_def unescape_def)
    next
      case 4
      show ?thesis by (rule simple [of "CHR ''r''"]) (simp_all add: 4 json_escape_def unescape_def)
    next
      case 5
      show ?thesis by (rule simple [of "CHR ''t''"]) (simp_all add: 5 json_escape_def unescape_def)
    next
      case 6
      show ?thesis by (rule simple [of "CHR ''b''"]) (simp_all add: 6 json_escape_def unescape_def)
    next
      case 7
      show ?thesis by (rule simple [of "CHR ''f''"]) (simp_all add: 7 json_escape_def unescape_def)
    qed
  next
    case False
    let ?n = "of_char c :: nat"
    show ?thesis
    proof (cases "?n < 32")
      case True
      have esc: "json_escape c = [CHR 0x5C, CHR ''u'', CHR ''0'', CHR ''0'',
                   hex_char (?n div 16), hex_char (?n mod 16)]"
        using False True by (simp add: json_escape_def)
      have "hex_val (hex_char (?n div 16)) = Some (?n div 16)"
        "hex_val (hex_char (?n mod 16)) = Some (?n mod 16)"
        using True by (simp_all add: hex_val_hex_char)
      from chars_hex [OF this t] show ?thesis
        by (simp add: esc)
    next
      case ge: False
      then have "json_escape c = [c]" "c \<noteq> CHR 0x22" "c \<noteq> CHR 0x5C" "32 \<le> ?n"
        using False by (simp_all add: json_escape_def)
      then show ?thesis
        using t by (simp add: chars_plain)
    qed
  qed
qed

lemma string_chars_escaped: "string_chars (concat (map json_escape s)) s"
  by (induction s) (simp_all add: chars_end string_chars_escape)

lemma string_literal_quote: "string_literal (json_quote s) s"
  unfolding string_literal_def json_quote_def using string_chars_escaped by blast

lemma json_ws_simps: "json_ws []" "json_ws '' ''"
  by (simp_all add: json_ws_def)

lemma json_elements_join:
  "xs \<noteq> [] \<Longrightarrow> \<forall>t \<in> set xs. json_value t \<Longrightarrow> json_ws w \<Longrightarrow>
   json_elements (w @ join '', '' xs)"
proof (induction xs arbitrary: w)
  case Nil
  then show ?case by simp
next
  case (Cons x xs)
  from Cons.prems have x: "json_element (w @ x @ [])"
    by (intro element) (simp_all add: json_ws_simps)
  show ?case
  proof (cases xs)
    case Nil
    with x show ?thesis by (simp add: elements_last)
  next
    case (Cons y ys)
    with Cons.IH [of "'' ''"] Cons.prems
    have "json_elements ('' '' @ join '', '' xs)"
      by (simp add: json_ws_simps)
    from elements_more [OF x this] show ?thesis
      by (simp add: Cons)
  qed
qed

lemma json_members_join:
  "kvs \<noteq> [] \<Longrightarrow> \<forall>kv \<in> set kvs. json_value (D (snd kv)) \<Longrightarrow> json_ws w \<Longrightarrow>
   json_members (w @ join '', '' (map (\<lambda>kv. json_quote (fst kv) @ '': '' @ D (snd kv)) kvs))
     (map fst kvs)"
proof (induction kvs arbitrary: w)
  case Nil
  then show ?case by simp
next
  case (Cons kv kvs)
  have k: "string_literal (json_quote (fst kv)) (fst kv)"
    by (rule string_literal_quote)
  from Cons.prems have e: "json_element ('' '' @ D (snd kv) @ [])"
    by (intro element) (simp_all add: json_ws_simps)
  show ?case
  proof (cases kvs)
    case Nil
    from members_last [OF Cons.prems(3) k json_ws_simps(1) e] show ?thesis
      by (simp add: Nil)
  next
    case (Cons kv' kvs')
    with Cons.IH [of "'' ''"] Cons.prems
    have "json_members ('' '' @ join '', '' (map (\<lambda>kv. json_quote (fst kv) @ '': '' @ D (snd kv)) kvs))
            (map fst kvs)"
      by (simp add: json_ws_simps)
    from members_more [OF Cons.prems(3) k json_ws_simps(1) e this] show ?thesis
      by (simp add: Cons)
  qed
qed

lemma json_value_dumps:
  "\<forall>x \<in> set_json v. float_text (f_json fl x) \<Longrightarrow> json_value (dumps fl v)"
proof (induction v)
  case JNull
  show ?case by (simp add: value_null)
next
  case (JBool b)
  show ?case by (simp add: value_true value_false)
next
  case (JInt i)
  show ?case by (simp add: value_number float_text_def json_number_str_int)
next
  case (JFloat x)
  then show ?case by (simp add: value_number)
next
  case (JStr s)
  show ?case using string_literal_quote [of s] by (simp add: value_string)
next
  case (JList xs)
  show ?case
  proof (cases "xs = []")
    case True
    with value_empty_array [of "[]"] show ?thesis by (simp add: json_ws_simps)
  next
    case False
    have "\<forall>t \<in> set (map (dumps fl) xs). json_value t"
      using JList by auto
    with False have "json_elements ([] @ join '', '' (map (dumps fl) xs))"
      by (intro json_elements_join) (simp_all add: json_ws_simps)
    then have "json_value (''['' @ join '', '' (map (dumps fl) xs) @ '']'')"
      by (intro value_array) simp
    then show ?thesis by simp
  qed
next
  case (JObj kvs)
  show ?case
  proof (cases "kvs = []")
    case True
    with value_empty_object [of "[]"] show ?thesis by (simp add: json_ws_simps)
  next
    case False
    have "\<forall>kv \<in> set kvs. json_value (dumps fl (snd kv))"
    proof
      fix kv assume kv: "kv \<in> set kvs"
      obtain k v where [simp]: "kv = (k, v)" by (cases kv)
      from kv JObj.prems have "\<forall>x \<in> set_json v. float_text (f_json fl x)"
        by fastforce
      with JObj.IH [of kv v] kv show "json_value (dumps fl (snd kv))"
        by simp
    qed
    with False have "json_members ([] @ join '', ''
        (map (\<lambda>kv. json_quote (fst kv) @ '': '' @ dumps fl (snd kv)) kvs)) (map fst kvs)"
      by (intro json_members_join) (simp_all add: json_ws_simps)
    then have "json_value (''{'' @ join '', ''
        (map (\<lambda>kv. json_quote (fst kv) @ '': '' @ dumps fl (snd kv)) kvs) @ ''}'')"
      by (intro value_object) simp
    then show ?thesis by simp
  qed
qed

lemma payload_object:
  assumes "\<forall>x \<in> set_json context. float_text (f_json fl x)"
  shows "json_object_text (dumps fl (user_payload context))
           [''task'', ''result_context'', ''requirements'', ''format'']"
proof -
  have ctx: "json_value (dumps fl context)"
    using assms by (rule json_value_dumps)
  have const: "json_value (dumps fl v)" if "set_json v = {}" for v
    by (rule json_value_dumps) (simp add: that)
  have "\<forall>kv \<in> set (payload_members context). json_value (dumps fl (snd kv))"
    by (simp add: payload_members_def ctx const del: dumps.simps)
  moreover have "payload_members context \<noteq> []"
    by (simp add: payload_members_def)
  ultimately have "json_members ([] @ join '', ''
        (map (\<lambda>kv. json_quote (fst kv) @ '': '' @ dumps fl (snd kv)) (payload_members context)))
        (map fst (payload_members context))"
    by (intro json_members_join) (simp_all add: json_ws_simps)
  moreover have "map fst (payload_members context) =
      [''task'', ''result_context'', ''requirements'', ''format'']"
    by (simp add: payload_members_def)
  ultimately show ?thesis
    unfolding json_object_text_def user_payload_def by (intro exI conjI) simp_all
qed

text \<open>
  C4. The composer returns two messages with the roles system and user, in that order,
  and the content of the second is the text of a JSON object whose keys are task,
  result_context, requirements and format, provided that the text written for each
  float of the context is a number or one of the constants Python writes for a float.
\<close>

theorem build_prompt_messages_two_messages:
  assumes "\<forall>x \<in> set_json context. float_text (f_json fl x)"
  shows "length (build_prompt_messages fl context) = 2 \<and>
         map role (build_prompt_messages fl context) = [''system'', ''user''] \<and>
         json_object_text (content (build_prompt_messages fl context ! 1))
           [''task'', ''result_context'', ''requirements'', ''format'']"
  using payload_object [OF assms] by (simp add: build_prompt_messages_def)

lemma example_float_str: "f_json exact_ops 5 = ''5.0''"
  by code_simp

lemma example_float_text: "float_text ''5.0''"
  by code_simp

lemma example_context_floats: "list_all (\<lambda>x. float_text (f_json exact_ops x)) [5]"
  by (simp add: example_float_str example_float_text)

lemma example_context_value:
  "example_context =
     JObj [(''result_id'', JStr ''r1''), (''session_id'', JStr ''s1''),
           (''quiz_link_id'', JStr ''quiz''), (''created_at'', JStr ''2024-01-01''),
           (''summary'', JObj [(''num_questions'', JInt 2), (''mean_abs_error'', JFloat 5),
                               (''num_with_sources'', JInt 2)]),
           (''items'',
              JList [JObj [(''question_id'', JStr ''q1''), (''question'', JStr ''Capital of France?''),
                           (''category'', JNull), (''user_guess'', JInt 10),
                           (''actual_value'', JInt 15), (''abs_error'', JFloat 5),
                           (''sources'', JList [JObj [(''name'', JStr ''First''),
                                                     (''url'', JStr ''https://a'')]])],
                     JObj [(''question_id'', JStr ''q2''), (''question'', JStr ''How many?''),
                           (''category'', JStr ''geo''), (''user_guess'', JStr ''bad''),
                           (''actual_value'', JInt 5), (''abs_error'', JNull),
                           (''sources'', JList [JObj [(''name'', JStr ''Second''),
                                                     (''url'', JStr ''https://a'')],
                                               JObj [(''name'', JStr ''https://b''),
                                                     (''url'', JStr ''https://b'')]])]]),
           (''candidate_sources'',
              JList [JObj [(''name'', JStr ''Second''), (''url'', JStr ''https://a'')],
                     JObj [(''name'', JStr ''https://b''), (''url'', JStr ''https://b'')]])]"
  by code_simp

theorem build_prompt_messages_two_messages_witness:
  "list_all (\<lambda>x. float_text (f_json exact_ops x)) [5] \<and>
   map role (build_prompt_messages exact_ops example_context) = [''system'', ''user''] \<and>
   json_object_text (content (build_prompt_messages exact_ops example_context ! 1))
     [''task'', ''result_context'', ''requirements'', ''format'']"
proof -
  have "set_json example_context = {5}"
    by (simp add: example_context_value)
  with example_context_floats
  have "\<forall>x \<in> set_json example_context. float_text (f_json exact_ops x)"
    by simp
  note shape = build_prompt_messages_two_messages [OF this]
  from shape [THEN conjunct2] example_context_floats show ?thesis
    by (intro conjI) (simp_all only: simp_thms)
qed

text \<open>
  C8. The context and the messages are functions of the result and the quiz mapping:
  equal inputs give equal outputs, the messages of a result are those of its context and
  are the same under any two environments and dry-run settings (which decide only
  whether the backend is called), and \<open>created_at\<close> of the context is the one of the
  result.
\<close>

theorem prompt_depends_on_inputs_only:
  "(res = res' \<and> qmeta = qmeta' \<longrightarrow>
      build_context_for_result fl res qmeta = build_context_for_result fl res' qmeta' \<and>
      map_sum id (\<lambda>c. build_prompt_messages fl (context_json c))
        (build_context_for_result fl res qmeta) =
      map_sum id (\<lambda>c. build_prompt_messages fl (context_json c))
        (build_context_for_result fl res' qmeta')) \<and>
   map_sum id messages (process_result fl env dry_run quizzes res) =
     map_sum id messages (process_result fl env' dry_run' quizzes res) \<and>
   (\<forall>ctx. build_context_for_result fl res qmeta = Inr ctx \<longrightarrow>
      ctx_created_at ctx = created_at res \<and> ctx_result_id ctx = result_id res \<and>
      ctx_session_id ctx = session_id res \<and> ctx_quiz_link_id ctx = quiz_link_id res)"
proof (intro conjI impI allI)
  assume "res = res' \<and> qmeta = qmeta'"
  then show "build_context_for_result fl res qmeta = build_context_for_result fl res' qmeta'"
    by simp
next
  assume "res = res' \<and> qmeta = qmeta'"
  then show "map_sum id (\<lambda>c. build_prompt_messages fl (context_json c))
        (build_context_for_result fl res qmeta) =
      map_sum id (\<lambda>c. build_prompt_messages fl (context_json c))
        (build_context_for_result fl res' qmeta')"
    by simp
next
  show "map_sum id messages (process_result fl env dry_run quizzes res) =
     map_sum id messages (process_result fl env' dry_run' quizzes res)"
    by (simp add: process_result_def Let_def split: sum.splits)
next
  fix ctx
  assume "build_context_for_result fl res qmeta = Inr ctx"
  then have "ctx_created_at ctx = created_at res \<and> ctx_result_id ctx = result_id res \<and>
      ctx_session_id ctx = session_id res \<and> ctx_quiz_link_id ctx = quiz_link_id res"
    by (auto simp: build_context_for_result_def split: sum.splits)
  then show "ctx_created_at ctx = created_at res" "ctx_result_id ctx = result_id res"
    "ctx_session_id ctx = session_id res" "ctx_quiz_link_id ctx = quiz_link_id res"
    by simp_all
qed

lemma example_do_call:
  "map_sum id do_call
     (process_result exact_ops example_environ False [(''quiz'', example_quiz)] example_result) =
     Inr True"
  "map_sum id do_call
     (process_result exact_ops Map.empty True [(''quiz'', example_quiz)] example_result) =
     Inr False"
  by code_simp+

lemma example_created_at:
  "map_sum id ctx_created_at (build_context_for_result exact_ops example_result example_quiz) =
     Inr ''2024-01-01''"
  by code_simp

theorem prompt_depends_on_inputs_only_witness:
  "map_sum id messages
     (process_result exact_ops example_environ False [(''quiz'', example_quiz)] example_result) =
   map_sum id messages
     (process_result exact_ops Map.empty True [(''quiz'', example_quiz)] example_result) \<and>
   map_sum id do_call
     (process_result exact_ops example_environ False [(''quiz'', example_quiz)] example_result) =
     Inr True \<and>
   map_sum id do_call
     (process_result exact_ops Map.empty True [(''quiz'', example_quiz)] example_result) =
     Inr False \<and>
   map_sum id ctx_created_at (build_context_for_result exact_ops example_result example_quiz) =
     Inr (created_at example_result)"
proof -
  have c: "created_at example_result = ''2024-01-01''"
    by (simp add: example_result_def)
  note indep = prompt_depends_on_inputs_only
    [of example_result example_result example_quiz example_quiz exact_ops example_environ False
        "[(''quiz'', example_quiz)]" Map.empty True]
  have "map_sum id ctx_created_at (build_context_for_result exact_ops example_result example_quiz) =
     Inr (created_at example_result)"
    by (simp only: c example_created_at)
  with indep [THEN conjunct2, THEN conjunct1] example_do_call show ?thesis
    by (intro conjI)
qed


end
